theory Spec2Isabelle
  imports Complex_Main "HOL-Library.Word" "HOL-Library.Log_Nat"
begin

section \<open>ETF monitor dashboard client: a model of static/js/main.js\<close>

text \<open>
  The client is one closure over a handful of variables and DOM nodes. The model keeps
  the shape of the script: one record for the variables and the nodes they point to,
  one function per JavaScript function or listener, the replies of the backend as an
  argument (the record \<open>world\<close>), and the calls that leave the script (\<open>fetch\<close>,
  \<open>alert\<close>, \<open>console.error\<close>, the chart constructor), with the writes to the chart
  panel and to the holdings table, appended to a log in the order in which they are
  made. (The repository also holds an earlier copy of the script, without the
  statistics view; where the two overlap the functions are the same up to the URLs.)
\<close>

subsection \<open>Strings\<close>

text \<open>
  A JavaScript string is a sequence of UTF-16 code units. Literals with Hangul are
  given by their code units; ASCII literals are written through \<open>js\<close>.
\<close>

type_synonym jsstring = "16 word list"

definition js :: "string \<Rightarrow> jsstring" where
  "js cs = map (\<lambda>c. of_nat (of_char c)) cs"

definition truthy :: "jsstring \<Rightarrow> bool" where
  \<comment> \<open>a string in a boolean position: only the empty string is falsy\<close>
  "truthy s = (s \<noteq> [])"

definition includes_str :: "jsstring \<Rightarrow> jsstring \<Rightarrow> bool" where
  \<comment> \<open>\<open>String.prototype.includes\<close>: the search string occurs at some position\<close>
  "includes_str s t = list_ex (\<lambda>k. take (length t) (drop k s) = t) [0 ..< Suc (length s)]"

subsection \<open>Numbers\<close>

text \<open>
  A finite JavaScript number is the rational it denotes. The only arithmetic the script
  does is the division of an integer by a positive integer constant; \<open>fdiv\<close> is that
  division in IEEE 754 binary64: the exact quotient rounded to 53 significant bits, ties
  to the even significand. (The quotients of the script lie far inside the normal range,
  so underflow and overflow are not modelled.)
\<close>

definition rne :: "int \<Rightarrow> int \<Rightarrow> int" where
  \<comment> \<open>\<open>n / d\<close> rounded to the nearest integer, ties to even (\<open>0 \<le> n\<close>, \<open>0 < d\<close>)\<close>
  "rne n d =
     (let q = n div d; r = n mod d
      in if 2 * r < d then q else if d < 2 * r then q + 1 else if even q then q else q + 1)"

definition pow2 :: "int \<Rightarrow> rat" where
  "pow2 k = (if 0 \<le> k then 2 ^ nat k else 1 / 2 ^ nat (- k))"

definition binade :: "int \<Rightarrow> int \<Rightarrow> int" where
  \<comment> \<open>the exponent \<open>E\<close> with \<open>2 ^ E \<le> n / d < 2 ^ (E + 1)\<close> (\<open>0 < n\<close>, \<open>0 < d\<close>)\<close>
  "binade n d =
     (let k = bitlen n - bitlen d
      in if (if 0 \<le> k then d * 2 ^ nat k \<le> n else d \<le> n * 2 ^ nat (- k)) then k else k - 1)"

definition fl_pos :: "int \<Rightarrow> int \<Rightarrow> rat" where
  "fl_pos n d =
     (let e = binade n d - 52;
          m = (if 0 \<le> e then rne n (d * 2 ^ nat e) else rne (n * 2 ^ nat (- e)) d)
      in of_int m * pow2 e)"

definition fdiv :: "int \<Rightarrow> int \<Rightarrow> rat" where
  "fdiv p d = (if p = 0 then 0 else if 0 < p then fl_pos p d else - fl_pos (- p) d)"

definition digitChar :: "nat \<Rightarrow> 16 word" where
  "digitChar d = of_nat (48 + d)"

fun decimal :: "nat \<Rightarrow> jsstring" where
  "decimal n = (if n < 10 then [digitChar n] else decimal (n div 10) @ [digitChar (n mod 10)])"

declare decimal.simps [simp del]

text \<open>
  \<open>Number.prototype.toFixed\<close> (ECMA-262, 21.1.3.3): the sign, then the integer \<open>n\<close>
  nearest to \<open>x * 10 ^ f\<close> (of two such, the larger) in decimal, padded with zeros to
  \<open>f + 1\<close> digits and with a point before the last \<open>f\<close>. From \<open>10 ^ 21\<close> on the
  result is that of \<open>Number::toString\<close>, which is not modelled: it is the argument
  \<open>nts\<close>.
\<close>

definition toFixed :: "(rat \<Rightarrow> jsstring) \<Rightarrow> rat \<Rightarrow> nat \<Rightarrow> jsstring" where
  "toFixed nts x f =
     (let s = (if x < 0 then js ''-'' else []);
          x = \<bar>x\<bar>
      in if 10 ^ 21 \<le> x then s @ nts x
         else
           let n = nat \<lfloor>x * 10 ^ f + 1 / 2\<rfloor>;
               m = decimal n;
               m = (if f \<noteq> 0
                    then let m = (if length m \<le> f then replicate (f + 1 - length m) (digitChar 0) @ m else m);
                             k = length m
                         in take (k - f) m @ js ''.'' @ drop (k - f) m
                    else m)
           in s @ m)"

definition intToString :: "(rat \<Rightarrow> jsstring) \<Rightarrow> int \<Rightarrow> jsstring" where
  \<comment> \<open>\<open>Number::toString\<close> on an integer: plain decimal digits below \<open>10 ^ 21\<close>\<close>
  "intToString nts n =
     (if \<bar>n\<bar> < 10 ^ 21 then (if n < 0 then js ''-'' else []) @ decimal (nat \<bar>n\<bar>)
      else nts (of_int n))"

text \<open>
  \<open>parseInt\<close> with no radix (ECMA-262, 19.2.5): leading white space is skipped, a sign
  is read, a prefix \<open>0x\<close> selects radix 16, and the longest run of digits is the value;
  no digit at all gives \<open>NaN\<close>, which is \<open>None\<close> here. The value is kept exact.
\<close>

definition isWhiteSpace :: "16 word \<Rightarrow> bool" where
  "isWhiteSpace c =
     (c \<in> {0x0009, 0x000A, 0x000B, 0x000C, 0x000D, 0x0020, 0x00A0, 0x1680, 0x2028, 0x2029,
            0x202F, 0x205F, 0x3000, 0xFEFF} \<or> (0x2000 \<le> c \<and> c \<le> 0x200A))"

definition digitValue :: "16 word \<Rightarrow> nat" where
  "digitValue c =
     (if 0x30 \<le> c \<and> c \<le> 0x39 then unat c - 0x30
      else if 0x61 \<le> c \<and> c \<le> 0x7A then unat c - 0x61 + 10
      else if 0x41 \<le> c \<and> c \<le> 0x5A then unat c - 0x41 + 10
      else 36)"

definition parseInt :: "jsstring \<Rightarrow> int option" where
  "parseInt str =
     (let S = dropWhile isWhiteSpace str;
          sign = (if take 1 S = js ''-'' then - 1 else 1);
          S = (if take 1 S = js ''+'' \<or> take 1 S = js ''-'' then drop 1 S else S);
          hex = (take 2 S = js ''0x'' \<or> take 2 S = js ''0X'');
          R = (if hex then 16 else 10);
          S = (if hex then drop 2 S else S);
          Z = takeWhile (\<lambda>c. digitValue c < R) S
      in if Z = [] then None
         else Some (sign * foldl (\<lambda>a c. a * int R + int (digitValue c)) 0 Z))"

definition array_slice :: "'a list \<Rightarrow> int \<Rightarrow> int option \<Rightarrow> 'a list" where
  \<comment> \<open>\<open>Array.prototype.slice(start, end)\<close>; \<open>NaN\<close> as \<open>end\<close> counts as 0\<close>
  "array_slice xs start end' =
     (let len = int (length xs);
          k = (if start < 0 then max (len + start) 0 else min start len);
          relativeEnd = (case end' of None \<Rightarrow> 0 | Some e \<Rightarrow> e);
          final = (if relativeEnd < 0 then max (len + relativeEnd) 0 else min relativeEnd len)
      in take (nat (final - k)) (drop (nat k) xs))"

subsection \<open>String literals of the script\<close>

definition EOKWON :: jsstring where
  \<comment> \<open>unit suffix of the template literal at main.js line 33\<close>
  "EOKWON =
    [0xC5B5, 0xC6D0]"

definition BAEKMANWON :: jsstring where
  \<comment> \<open>unit suffix of the template literal at main.js line 36\<close>
  "BAEKMANWON =
    [0xBC31, 0xB9CC, 0xC6D0]"

definition TEXT_SHOW_STATS :: jsstring where
  \<comment> \<open>button caption assigned at main.js line 61\<close>
  "TEXT_SHOW_STATS =
    [0xD1B5, 0xACC4, 0x0020, 0xBCF4, 0xAE30]"

definition TEXT_SHOW_ETF :: jsstring where
  \<comment> \<open>button caption assigned at main.js line 66\<close>
  "TEXT_SHOW_ETF =
    [0x0045, 0x0054, 0x0046, 0x0020, 0xC0C1, 0xC138, 0x0020, 0xBCF4, 0xAE30]"

definition TEXT_NO_ETFS :: jsstring where
  \<comment> \<open>text of the placeholder list item at main.js line 75\<close>
  "TEXT_NO_ETFS =
    [0xD45C, 0xC2DC, 0xD560, 0x0020, 0x0045, 0x0054, 0x0046, 0xAC00, 0x0020, 0xC5C6,
     0xC2B5, 0xB2C8, 0xB2E4, 0x002E]"

definition TEXT_NO_HOLDINGS :: jsstring where
  \<comment> \<open>text of the placeholder row at main.js line 92\<close>
  "TEXT_NO_HOLDINGS =
    [0xAD6C, 0xC131, 0x0020, 0xC885, 0xBAA9, 0x0020, 0xC815, 0xBCF4, 0xAC00, 0x0020,
     0xC5C6, 0xC2B5, 0xB2C8, 0xB2E4, 0x002E]"

definition STATUS_NEW :: jsstring where
  \<comment> \<open>status literal compared at main.js line 102\<close>
  "STATUS_NEW =
    [0xC2E0, 0xADDC]"

definition STATUS_REMOVED :: jsstring where
  \<comment> \<open>status literal compared at main.js line 102\<close>
  "STATUS_REMOVED =
    [0xC81C, 0xC678]"

definition STATUS_INCREASE :: jsstring where
  \<comment> \<open>status literal compared at main.js line 102\<close>
  "STATUS_INCREASE =
    [0xBE44, 0xC911, 0x0020, 0xC99D, 0xAC00]"

definition STATUS_DECREASE :: jsstring where
  \<comment> \<open>status literal compared at main.js line 102\<close>
  "STATUS_DECREASE =
    [0xBE44, 0xC911, 0x0020, 0xAC10, 0xC18C]"

definition TEXT_NO_STATS :: jsstring where
  \<comment> \<open>text of the placeholder row at main.js line 121\<close>
  "TEXT_NO_STATS =
    [0xD1B5, 0xACC4, 0x0020, 0xB370, 0xC774, 0xD130, 0xAC00, 0x0020, 0xC5C6, 0xC2B5,
     0xB2C8, 0xB2E4, 0x002E]"

definition COUNT_SUFFIX :: jsstring where
  \<comment> \<open>counter suffix of the cells at main.js lines 133 and 143\<close>
  "COUNT_SUFFIX =
    [0xAC1C]"

definition TEXT_ALL_THEMES :: jsstring where
  \<comment> \<open>label of the first theme option at main.js line 281\<close>
  "TEXT_ALL_THEMES =
    [0xC804, 0xCCB4]"

definition LOADING_INIT :: jsstring where
  \<comment> \<open>loading text at main.js line 247\<close>
  "LOADING_INIT =
    [0xC560, 0xD50C, 0xB9AC, 0xCF00, 0xC774, 0xC158, 0xC744, 0x0020, 0xCD08, 0xAE30,
     0xD654, 0xD558, 0xACE0, 0x0020, 0xC788, 0xC2B5, 0xB2C8, 0xB2E4, 0x002E, 0x0020,
     0xC7A0, 0xC2DC, 0xB9CC, 0x0020, 0xAE30, 0xB2E4, 0xB824, 0xC8FC, 0xC138, 0xC694,
     0x002E, 0x002E, 0x002E]"

definition ALERT_INIT :: jsstring where
  \<comment> \<open>alert text at main.js line 257\<close>
  "ALERT_INIT =
    [0xCD08, 0xAE30, 0xD654, 0x0020, 0xC911, 0x0020, 0xC624, 0xB958, 0xAC00, 0x0020,
     0xBC1C, 0xC0DD, 0xD588, 0xC2B5, 0xB2C8, 0xB2E4, 0x002E]"

definition LOADING_DETAILS :: jsstring where
  \<comment> \<open>loading text at main.js line 294\<close>
  "LOADING_DETAILS =
    [0x0045, 0x0054, 0x0046, 0x0020, 0xC0C1, 0xC138, 0x0020, 0xC815, 0xBCF4, 0xB97C,
     0x0020, 0xBD88, 0xB7EC, 0xC624, 0xB294, 0x0020, 0xC911, 0xC785, 0xB2C8, 0xB2E4,
     0x002E, 0x002E, 0x002E]"

definition PREFIX_DATES :: jsstring where
  \<comment> \<open>prefix of the template literal at main.js line 311\<close>
  "PREFIX_DATES =
    [0xBE44, 0xAD50, 0x0020, 0xAE30, 0xAC04, 0x003A, 0x0020]"

definition ALERT_DETAILS :: jsstring where
  \<comment> \<open>alert text at main.js line 316\<close>
  "ALERT_DETAILS =
    [0x0045, 0x0054, 0x0046, 0x0020, 0xC0C1, 0xC138, 0x0020, 0xC815, 0xBCF4, 0xB97C,
     0x0020, 0xAC00, 0xC838, 0xC624, 0xB294, 0x0020, 0xB370, 0x0020, 0xC2E4, 0xD328,
     0xD588, 0xC2B5, 0xB2C8, 0xB2E4, 0x002E]"

definition LOADING_HISTORY :: jsstring where
  \<comment> \<open>loading text at main.js line 323\<close>
  "LOADING_HISTORY =
    [0xC885, 0xBAA9, 0x0020, 0xBE44, 0xC911, 0x0020, 0xCD94, 0xC774, 0xB97C, 0x0020,
     0xBD88, 0xB7EC, 0xC624, 0xB294, 0x0020, 0xC911, 0xC785, 0xB2C8, 0xB2E4, 0x002E,
     0x002E, 0x002E]"

definition ALERT_HISTORY :: jsstring where
  \<comment> \<open>alert text at main.js line 331\<close>
  "ALERT_HISTORY =
    [0xC885, 0xBAA9, 0x0020, 0xBE44, 0xC911, 0x0020, 0xCD94, 0xC774, 0xB97C, 0x0020,
     0xAC00, 0xC838, 0xC624, 0xB294, 0x0020, 0xB370, 0x0020, 0xC2E4, 0xD328, 0xD588,
     0xC2B5, 0xB2C8, 0xB2E4, 0x002E]"

definition LOADING_STATS :: jsstring where
  \<comment> \<open>loading text at main.js line 338\<close>
  "LOADING_STATS =
    [0xD1B5, 0xACC4, 0x0020, 0xB370, 0xC774, 0xD130, 0xB97C, 0x0020, 0xBD88, 0xB7EC,
     0xC624, 0xB294, 0x0020, 0xC911, 0xC785, 0xB2C8, 0xB2E4, 0x002E, 0x002E, 0x002E]"

definition PREFIX_STATS_DATE :: jsstring where
  \<comment> \<open>prefix of the template literal at main.js line 358\<close>
  "PREFIX_STATS_DATE =
    [0xAE30, 0xC900, 0xC77C, 0x003A, 0x0020]"

definition ALERT_STATS :: jsstring where
  \<comment> \<open>alert text at main.js line 373\<close>
  "ALERT_STATS =
    [0xD1B5, 0xACC4, 0x0020, 0xB370, 0xC774, 0xD130, 0xB97C, 0x0020, 0xAC00, 0xC838,
     0xC624, 0xB294, 0x0020, 0xB370, 0x0020, 0xC2E4, 0xD328, 0xD588, 0xC2B5, 0xB2C8,
     0xB2E4, 0x002E]"

definition LOADING_REFRESH :: jsstring where
  \<comment> \<open>loading text at main.js line 418\<close>
  "LOADING_REFRESH =
    [0xCD5C, 0xC2E0, 0x0020, 0xB370, 0xC774, 0xD130, 0xB85C, 0x0020, 0xC5C5, 0xB370,
     0xC774, 0xD2B8, 0x0020, 0xC911, 0xC785, 0xB2C8, 0xB2E4, 0x002E, 0x002E, 0x002E]"

definition ALERT_REFRESH :: jsstring where
  \<comment> \<open>alert text at main.js line 433\<close>
  "ALERT_REFRESH =
    [0xB370, 0xC774, 0xD130, 0x0020, 0xC5C5, 0xB370, 0xC774, 0xD2B8, 0x0020, 0xC911,
     0x0020, 0xC624, 0xB958, 0xAC00, 0x0020, 0xBC1C, 0xC0DD, 0xD588, 0xC2B5, 0xB2C8,
     0xB2E4, 0x002E]"

definition ALERT_SELECT_FIRST :: jsstring where
  \<comment> \<open>alert text at main.js line 443\<close>
  "ALERT_SELECT_FIRST =
    [0xBA3C, 0xC800, 0x0020, 0x0045, 0x0054, 0x0046, 0xB97C, 0x0020, 0xC120, 0xD0DD,
     0xD574, 0xC8FC, 0xC138, 0xC694, 0x002E]"

definition HEADERS_DUPLICATE :: "jsstring list" where
  \<comment> \<open>the six column captions at main.js lines 157-162\<close>
  "HEADERS_DUPLICATE =
   [[0xC21C, 0xC704],
    [0xC885, 0xBAA9, 0xBA85],
    [0xC885, 0xBAA9, 0xCF54, 0xB4DC],
    [0xC911, 0xBCF5, 0x0020, 0x0045, 0x0054, 0x0046, 0x0020, 0xC218],
    [0xCD1D, 0x0020, 0xD3C9, 0xAC00, 0xAE08, 0xC561],
    [0xD3C9, 0xADE0, 0x0020, 0xBE44, 0xC911, 0x0028, 0x0025, 0x0029]]"

definition HEADERS_AMOUNT :: "jsstring list" where
  \<comment> \<open>the six column captions at main.js lines 166-171\<close>
  "HEADERS_AMOUNT =
   [[0xC21C, 0xC704],
    [0xC885, 0xBAA9, 0xBA85],
    [0xC885, 0xBAA9, 0xCF54, 0xB4DC],
    [0xCD1D, 0x0020, 0xD3C9, 0xAC00, 0xAE08, 0xC561],
    [0xD3EC, 0xD568, 0x0020, 0x0045, 0x0054, 0x0046, 0x0020, 0xC218],
    [0xCD5C, 0xB300, 0x0020, 0xBE44, 0xC911, 0x0028, 0x0025, 0x0029]]"

subsection \<open>Data model: the JSON bodies of the backend\<close>

text \<open>
  A decoded body has the shape the script reads from it. Fields the script guards with
  \<open>||\<close> or \<open>?.\<close> are optional. Numbers are the rationals they denote; amounts are
  integers.
\<close>

record etf =
  ticker :: jsstring
  name :: jsstring

record holding =
  stock_ticker :: jsstring
  stock_name :: jsstring
  prev_weight :: rat
  current_weight :: rat
  change :: rat
  current_amount :: int
  status :: jsstring

record etf_comparison =
  etf_ticker :: jsstring
  etf_name :: "jsstring option"
  prev_date :: jsstring
  current_date :: jsstring
  comparison :: "holding list"

record history_point =
  date :: jsstring
  weight :: rat
  amount :: int

text \<open>
  A row of either statistics table (\<open>name\<close>, \<open>ticker\<close>, \<open>etf_count\<close>,
  \<open>total_amount\<close>, \<open>avg_weight\<close>, \<open>max_weight\<close>) and the statistics body
  (\<open>date\<close>, \<open>stocks\<close>, \<open>duplicate_stocks\<close>); the prefixes keep the field names apart
  from those above.
\<close>

record stats_item =
  item_name :: jsstring
  item_ticker :: jsstring
  etf_count :: int
  total_amount :: int
  avg_weight :: rat
  max_weight :: rat

record stats_body =
  stats_date :: jsstring
  stocks :: "stats_item list option"
  duplicate_stocks :: "stats_item list option"

record system_result =
  message :: jsstring

record themes_result =
  themes :: "jsstring list option"

record history_result =
  history :: "history_point list"

subsection \<open>The world outside the script\<close>

text \<open>
  \<open>fetch\<close> followed by \<open>response.json()\<close> either rejects, or gives a response with
  its \<open>ok\<close> flag and a body that decodes (\<open>Some\<close>) or does not (\<open>None\<close>). The
  world answers each URL; it also holds the three built-ins that are not modelled.
\<close>

datatype 'a reply = Rejected | Response bool "'a option"

record world =
  toLowerCase :: "jsstring \<Rightarrow> jsstring"
  numberToString :: "rat \<Rightarrow> jsstring"
  encodeURIComponent :: "jsstring \<Rightarrow> jsstring option"
  fetchSystem :: "jsstring \<Rightarrow> system_result reply"
  fetchEtfs :: "jsstring \<Rightarrow> etf list reply"
  fetchThemes :: "jsstring \<Rightarrow> themes_result reply"
  fetchComparison :: "jsstring \<Rightarrow> etf_comparison reply"
  fetchHistory :: "jsstring \<Rightarrow> history_result reply"
  fetchStats :: "jsstring \<Rightarrow> stats_body reply"

subsection \<open>The page: variables of the closure and the DOM nodes they name\<close>

record list_item =
  liText :: jsstring
  liTicker :: "jsstring option"
  liActive :: bool

text \<open>
  A table row is either the placeholder (one cell spanning \<open>colspan\<close> columns) or a
  row of cells, each cell its \<open>class\<close> attribute and its text; a row of the holdings
  table also carries \<open>data-stock-ticker\<close> and \<open>data-stock-name\<close>.
\<close>

type_synonym cell = "jsstring \<times> jsstring"

datatype holdings_row =
    NoHoldingsRow nat jsstring
  | HoldingRow jsstring jsstring "cell list"

datatype stats_row = NoStatsRow nat jsstring | StatsRow "cell list"

text \<open>
  The log of the page, oldest entry first. It holds the calls that leave the script, and
  the writes to the two nodes whose order relative to the chart calls matters: every
  \<open>classList\<close> call on the chart panel, and every write to the body of the holdings
  table (an assignment to \<open>innerHTML\<close>, with the children it leaves, or an
  \<open>appendChild\<close>). The other writes to the DOM are kept by their result only.
\<close>

datatype effect =
    Fetch jsstring jsstring
  | ConsoleError jsstring
  | Alert jsstring
  | ChartConstructed nat
  | ChartDestroyed nat
  | Navigate jsstring
  | ChartPanelHide
  | ChartPanelShow
  | HoldingsBodySet "holdings_row list"
  | HoldingsRowAppend holdings_row

text \<open>
  A chart instance is what the constructor is given: the labels and the two data series
  (the options are constants). Instances are never reused; \<open>charts\<close> below lists
  every instance constructed so far, and an instance is known by its position there.
\<close>

record chart =
  chartLabels :: "jsstring list"
  chartWeights :: "rat list"
  chartAmounts :: "rat list"

record state =
  allEtfs :: "etf list"
  currentEtfData :: "etf_comparison option"
  holdingsData :: "holding list"
  weightChart :: "nat option"
  currentView :: jsstring
  allThemes :: "jsstring list"
  etfListItems :: "list_item list"
  welcomeMessageHidden :: bool
  etfDetailsHidden :: bool
  statsViewHidden :: bool
  chartContainerHidden :: bool
  holdingsTableRows :: "holdings_row list"
  statsTableRows :: "stats_row list"
  statsTableHeaders :: "jsstring list"
  holdingsCountValue :: jsstring
  statsTypeValue :: jsstring
  themeSelectValue :: jsstring
  themeSelectDisabled :: bool
  themeSelectOptions :: "(jsstring \<times> jsstring) list"
  loadingTextContent :: jsstring
  loadingOverlayDisplay :: jsstring
  loadingOverlayPointerEvents :: jsstring
  bodyPointerEvents :: jsstring
  viewToggleText :: jsstring
  etfNameText :: jsstring
  etfTickerText :: jsstring
  etfDatesText :: jsstring
  statsDateText :: jsstring
  stockNameChartText :: jsstring
  charts :: "chart list"
  effects :: "effect list"

text \<open>
  The state when the listener of \<open>DOMContentLoaded\<close> has declared its variables
  (main.js lines 22-27). The markup is not part of the script, so the nodes are
  arbitrary.
\<close>

definition initial :: "state \<Rightarrow> bool" where
  "initial s =
     (allEtfs s = [] \<and> currentEtfData s = None \<and> holdingsData s = [] \<and> weightChart s = None \<and>
      currentView s = js ''etf'' \<and> allThemes s = [] \<and> charts s = [] \<and> effects s = [])"

definition alert :: "jsstring \<Rightarrow> state \<Rightarrow> state" where
  "alert msg s = s\<lparr>effects := effects s @ [Alert msg]\<rparr>"

definition console_error :: "jsstring \<Rightarrow> state \<Rightarrow> state" where
  "console_error label s = s\<lparr>effects := effects s @ [ConsoleError label]\<rparr>"

definition fetch :: "jsstring \<Rightarrow> jsstring \<Rightarrow> state \<Rightarrow> state" where
  \<comment> \<open>the request leaves the page; its reply is the world's\<close>
  "fetch method url s = s\<lparr>effects := effects s @ [Fetch method url]\<rparr>"

text \<open>
  A \<open>try\<close> block runs on the state and completes normally or by a throw; what it did
  before the throw stays done.
\<close>

datatype completion = Normal | Thrown

definition try_catch :: "(state \<Rightarrow> completion \<times> state) \<Rightarrow> (state \<Rightarrow> state) \<Rightarrow> state \<Rightarrow> state" where
  "try_catch body handler s =
     (case body s of (Normal, s') \<Rightarrow> s' | (Thrown, s') \<Rightarrow> handler s')"

definition try_catch_finally ::
  "(state \<Rightarrow> completion \<times> state) \<Rightarrow> (state \<Rightarrow> state) \<Rightarrow> (state \<Rightarrow> state) \<Rightarrow> state \<Rightarrow> state" where
  "try_catch_finally body handler finalizer s = finalizer (try_catch body handler s)"

subsection \<open>Utilities and loading state (main.js lines 30-51)\<close>

definition formatAmount :: "world \<Rightarrow> int \<Rightarrow> jsstring" where
  "formatAmount w amount' =
     (let billion = fdiv amount' 100000000
      in if 1 \<le> billion then toFixed (numberToString w) billion 1 @ EOKWON
         else
           let million = fdiv amount' 10000000
           in toFixed (numberToString w) million 0 @ BAEKMANWON)"

definition showLoading :: "jsstring \<Rightarrow> state \<Rightarrow> state" where
  "showLoading text' s =
     s\<lparr>loadingTextContent := text', loadingOverlayDisplay := js ''flex'',
       bodyPointerEvents := js ''none'', loadingOverlayPointerEvents := js ''auto''\<rparr>"

definition hideLoading :: "state \<Rightarrow> state" where
  "hideLoading s = s\<lparr>loadingOverlayDisplay := js ''none'', bodyPointerEvents := js ''auto''\<rparr>"

subsection \<open>Rendering (main.js lines 72-243)\<close>

definition renderEtfList :: "etf list \<Rightarrow> state \<Rightarrow> state" where
  "renderEtfList etfs s =
     (if etfs = []
      then s\<lparr>etfListItems := [\<lparr>liText = TEXT_NO_ETFS, liTicker = None, liActive = False\<rparr>]\<rparr>
      else s\<lparr>etfListItems :=
               map (\<lambda>e. \<lparr>liText = name e, liTicker = Some (ticker e), liActive = False\<rparr>) etfs\<rparr>)"

definition holdingsRow :: "world \<Rightarrow> holding \<Rightarrow> nat \<Rightarrow> holdings_row" where
  \<comment> \<open>the callback of \<open>forEach\<close> at main.js lines 96-113: one item, its index\<close>
  "holdingsRow w item index =
     (let changeClass = (if 0 < change item then js ''change-positive''
                         else if change item < 0 then js ''change-negative'' else []);
          statusClass = js ''status-'' @
            (if status item = STATUS_NEW then js ''new''
             else if status item = STATUS_REMOVED then js ''removed''
             else if status item = STATUS_INCREASE then js ''increase''
             else if status item = STATUS_DECREASE then js ''decrease''
             else js ''hold'')
      in HoldingRow (stock_ticker item) (stock_name item)
           [([], intToString (numberToString w) (int index + 1)),
            ([], stock_name item),
            (js ''text-right'', toFixed (numberToString w) (prev_weight item) 2),
            (js ''text-right'', toFixed (numberToString w) (current_weight item) 2),
            (js ''text-right '' @ changeClass,
             (if 0 < change item then js ''+'' else []) @
             toFixed (numberToString w) (change item) 2),
            (js ''text-right amount-cell'', formatAmount w (current_amount item)),
            (statusClass, status item)])"

definition setHoldingsBody :: "holdings_row list \<Rightarrow> state \<Rightarrow> state" where
  \<comment> \<open>\<open>holdingsTableBody.innerHTML = ...\<close>, given by the rows it leaves in the body\<close>
  "setHoldingsBody rows s =
     s\<lparr>holdingsTableRows := rows, effects := effects s @ [HoldingsBodySet rows]\<rparr>"

definition appendHoldingsRow :: "holdings_row \<Rightarrow> state \<Rightarrow> state" where
  \<comment> \<open>\<open>holdingsTableBody.appendChild(row)\<close>\<close>
  "appendHoldingsRow row s =
     s\<lparr>holdingsTableRows := holdingsTableRows s @ [row],
       effects := effects s @ [HoldingsRowAppend row]\<rparr>"

definition renderHoldingsTable :: "world \<Rightarrow> state \<Rightarrow> state" where
  "renderHoldingsTable w s =
     (let s = setHoldingsBody [] s;
          count = holdingsCountValue s;
          dataToShow = (if count = js ''all'' then holdingsData s
                        else array_slice (holdingsData s) 0 (parseInt count))
      in if dataToShow = []
         then setHoldingsBody [NoHoldingsRow 7 TEXT_NO_HOLDINGS] s
         else foldl (\<lambda>s (index, item). appendHoldingsRow (holdingsRow w item index) s) s
                (enumerate 0 dataToShow))"

definition statsRow :: "world \<Rightarrow> jsstring \<Rightarrow> stats_item \<Rightarrow> nat \<Rightarrow> stats_row" where
  "statsRow w type' item index =
     (if type' = js ''duplicate''
      then StatsRow
        [([], intToString (numberToString w) (int index + 1)),
         ([], item_name item),
         ([], item_ticker item),
         (js ''text-right'', intToString (numberToString w) (etf_count item) @ COUNT_SUFFIX),
         (js ''text-right'', formatAmount w (total_amount item)),
         (js ''text-right'', toFixed (numberToString w) (avg_weight item) 2 @ js ''%'')]
      else if type' = js ''amount''
      then StatsRow
        [([], intToString (numberToString w) (int index + 1)),
         ([], item_name item),
         ([], item_ticker item),
         (js ''text-right'', formatAmount w (total_amount item)),
         (js ''text-right'', intToString (numberToString w) (etf_count item) @ COUNT_SUFFIX),
         (js ''text-right'', toFixed (numberToString w) (max_weight item) 2 @ js ''%'')]
      else StatsRow [])"

definition renderStatsTable :: "world \<Rightarrow> stats_item list \<Rightarrow> jsstring \<Rightarrow> state \<Rightarrow> state" where
  "renderStatsTable w data type' s =
     (if data = []
      then s\<lparr>statsTableRows := [NoStatsRow 6 TEXT_NO_STATS]\<rparr>
      else s\<lparr>statsTableRows :=
               map (\<lambda>(index, item). statsRow w type' item index) (enumerate 0 data)\<rparr>)"

definition updateStatsTableHeaders :: "jsstring \<Rightarrow> state \<Rightarrow> state" where
  "updateStatsTableHeaders type' s =
     (if type' = js ''duplicate'' then s\<lparr>statsTableHeaders := HEADERS_DUPLICATE\<rparr>
      else if type' = js ''amount'' then s\<lparr>statsTableHeaders := HEADERS_AMOUNT\<rparr>
      else s)"

definition hideChartPanel :: "state \<Rightarrow> state" where
  \<comment> \<open>\<open>chartContainer.classList.add('hidden')\<close>\<close>
  "hideChartPanel s = s\<lparr>chartContainerHidden := True, effects := effects s @ [ChartPanelHide]\<rparr>"

definition showChartPanel :: "state \<Rightarrow> state" where
  \<comment> \<open>\<open>chartContainer.classList.remove('hidden')\<close>\<close>
  "showChartPanel s = s\<lparr>chartContainerHidden := False, effects := effects s @ [ChartPanelShow]\<rparr>"

definition destroyChart :: "nat \<Rightarrow> state \<Rightarrow> state" where
  \<comment> \<open>\<open>destroy()\<close> on the chart instance with this identity\<close>
  "destroyChart c s = s\<lparr>effects := effects s @ [ChartDestroyed c]\<rparr>"

definition newChart :: "chart \<Rightarrow> state \<Rightarrow> nat \<times> state" where
  \<comment> \<open>\<open>new Chart(canvas, config)\<close>: a fresh instance, identified by its position\<close>
  "newChart c s =
     (length (charts s),
      s\<lparr>charts := charts s @ [c], effects := effects s @ [ChartConstructed (length (charts s))]\<rparr>)"

definition renderWeightChart :: "jsstring \<Rightarrow> history_point list \<Rightarrow> state \<Rightarrow> state" where
  "renderWeightChart stockName history' s =
     (let s = showChartPanel s;
          s = s\<lparr>stockNameChartText := stockName\<rparr>;
          labels = map date history';
          weightData = map weight history';
          amountData = map (\<lambda>item. fdiv (amount item) 100000000) history';
          s = (case weightChart s of Some c \<Rightarrow> destroyChart c s | None \<Rightarrow> s);
          (c, s) = newChart \<lparr>chartLabels = labels, chartWeights = weightData,
                              chartAmounts = amountData\<rparr> s
      in s\<lparr>weightChart := Some c\<rparr>)"

subsection \<open>API calls (main.js lines 246-377)\<close>

text \<open>
  Each asynchronous function is run to its end on the reply of the world: while a
  request is in flight the overlay of \<open>showLoading\<close> takes the pointer events of the
  page, so no other listener runs in between. The \<open>_try\<close> functions are the \<open>try\<close>
  blocks.
\<close>

definition or_else :: "jsstring option \<Rightarrow> jsstring \<Rightarrow> jsstring" where
  \<comment> \<open>\<open>a || b\<close> on a string that may be \<open>undefined\<close>\<close>
  "or_else a b = (case a of Some x \<Rightarrow> if truthy x then x else b | None \<Rightarrow> b)"

definition fetchEtfList_try :: "world \<Rightarrow> state \<Rightarrow> completion \<times> state" where
  "fetchEtfList_try w s =
     (let s = fetch (js ''GET'') (js ''/api/etfs'') s
      in case fetchEtfs w (js ''/api/etfs'') of
           Rejected \<Rightarrow> (Thrown, s)
         | Response ok body \<Rightarrow>
             if \<not> ok then (Thrown, s)
             else (case body of
                     None \<Rightarrow> (Thrown, s)
                   | Some etfs \<Rightarrow> (Normal, renderEtfList etfs (s\<lparr>allEtfs := etfs\<rparr>))))"

definition fetchEtfList :: "world \<Rightarrow> state \<Rightarrow> state" where
  "fetchEtfList w = try_catch (fetchEtfList_try w) (console_error (js ''Error fetching ETF list:''))"

text \<open>
  Replacing the options of a \<open>select\<close> leaves its first option selected, so the value
  of the theme selector is empty after \<open>loadThemes\<close> has filled it.
\<close>

definition loadThemes_try :: "world \<Rightarrow> state \<Rightarrow> completion \<times> state" where
  "loadThemes_try w s =
     (let s = fetch (js ''GET'') (js ''/api/config/themes'') s
      in case fetchThemes w (js ''/api/config/themes'') of
           Rejected \<Rightarrow> (Thrown, s)
         | Response ok body \<Rightarrow>
             if \<not> ok then (Thrown, s)
             else (case body of
                     None \<Rightarrow> (Thrown, s)
                   | Some result \<Rightarrow>
                       let ts = (case themes result of Some ts \<Rightarrow> ts | None \<Rightarrow> [])
                       in (Normal,
                           s\<lparr>allThemes := ts,
                             themeSelectOptions := ([], TEXT_ALL_THEMES) # map (\<lambda>theme. (theme, theme)) ts,
                             themeSelectValue := []\<rparr>)))"

definition loadThemes :: "world \<Rightarrow> state \<Rightarrow> state" where
  "loadThemes w = try_catch (loadThemes_try w) (console_error (js ''Error loading themes:''))"

definition initializeApp_try :: "world \<Rightarrow> state \<Rightarrow> completion \<times> state" where
  "initializeApp_try w s =
     (let s = fetch (js ''POST'') (js ''/api/system/initialize'') s
      in case fetchSystem w (js ''/api/system/initialize'') of
           Rejected \<Rightarrow> (Thrown, s)
         | Response ok body \<Rightarrow>
             (case body of
                None \<Rightarrow> (Thrown, s)
              | Some result \<Rightarrow>
                  let s = alert (message result) s;
                      s = fetchEtfList w s;
                      s = loadThemes w s
                  in (Normal, s)))"

definition initializeApp :: "world \<Rightarrow> state \<Rightarrow> state" where
  "initializeApp w s =
     try_catch_finally (initializeApp_try w)
       (\<lambda>s. alert ALERT_INIT (console_error (js ''Initialization error:'') s))
       hideLoading
       (showLoading LOADING_INIT s)"

definition fetchEtfDetails_try :: "world \<Rightarrow> jsstring \<Rightarrow> state \<Rightarrow> completion \<times> state" where
  "fetchEtfDetails_try w ticker' s =
     (let url = js ''/api/etf/'' @ ticker' @ js ''/comparison'';
          s = fetch (js ''GET'') url s
      in case fetchComparison w url of
           Rejected \<Rightarrow> (Thrown, s)
         | Response ok body \<Rightarrow>
             if \<not> ok then (Thrown, s)
             else (case body of
                     None \<Rightarrow> (Thrown, s)
                   | Some d \<Rightarrow>
                       let s = s\<lparr>currentEtfData := Some d\<rparr>;
                           s = s\<lparr>holdingsData := comparison d\<rparr>;
                           s = s\<lparr>welcomeMessageHidden := True\<rparr>;
                           s = s\<lparr>etfDetailsHidden := False\<rparr>;
                           s = hideChartPanel s;
                           s = (case weightChart s of Some c \<Rightarrow> destroyChart c s | None \<Rightarrow> s);
                           selectedEtf = find (\<lambda>e. ticker e = ticker') (allEtfs s);
                           s = s\<lparr>etfNameText :=
                                   or_else (etf_name d)
                                     (or_else (map_option name selectedEtf) (js ''Unknown ETF''))\<rparr>;
                           s = s\<lparr>etfTickerText := js ''TICKER: '' @ etf_ticker d\<rparr>;
                           s = s\<lparr>etfDatesText :=
                                   PREFIX_DATES @ prev_date d @ js '' vs '' @ current_date d\<rparr>
                       in (Normal, renderHoldingsTable w s)))"

definition fetchEtfDetails :: "world \<Rightarrow> jsstring \<Rightarrow> state \<Rightarrow> state" where
  "fetchEtfDetails w ticker' s =
     try_catch_finally (fetchEtfDetails_try w ticker')
       (\<lambda>s. alert ALERT_DETAILS (console_error (js ''Error fetching ETF details:'') s))
       hideLoading
       (showLoading LOADING_DETAILS s)"

definition fetchStockHistory_try ::
  "world \<Rightarrow> jsstring \<Rightarrow> jsstring \<Rightarrow> jsstring \<Rightarrow> state \<Rightarrow> completion \<times> state" where
  "fetchStockHistory_try w etfTicker stockTicker stockName s =
     (let url = js ''/api/etf/'' @ etfTicker @ js ''/stock/'' @ stockTicker @ js ''/history'';
          s = fetch (js ''GET'') url s
      in case fetchHistory w url of
           Rejected \<Rightarrow> (Thrown, s)
         | Response ok body \<Rightarrow>
             if \<not> ok then (Thrown, s)
             else (case body of
                     None \<Rightarrow> (Thrown, s)
                   | Some data \<Rightarrow> (Normal, renderWeightChart stockName (history data) s)))"

definition fetchStockHistory :: "world \<Rightarrow> jsstring \<Rightarrow> jsstring \<Rightarrow> jsstring \<Rightarrow> state \<Rightarrow> state" where
  "fetchStockHistory w etfTicker stockTicker stockName s =
     try_catch_finally (fetchStockHistory_try w etfTicker stockTicker stockName)
       (\<lambda>s. alert ALERT_HISTORY (console_error (js ''Error fetching stock history:'') s))
       hideLoading
       (showLoading LOADING_HISTORY s)"

text \<open>
  The URL of the statistics request (main.js lines 343-352). \<open>encodeURIComponent\<close>
  throws on a lone surrogate (\<open>None\<close>); with a type that is neither \<open>duplicate\<close> nor
  \<open>amount\<close> the variable stays \<open>undefined\<close>, which \<open>fetch\<close> reads as the URL
  \<open>undefined\<close>.
\<close>

definition statsUrl :: "world \<Rightarrow> jsstring \<Rightarrow> jsstring \<Rightarrow> jsstring option" where
  "statsUrl w statsType theme =
     (if statsType = js ''duplicate''
      then (if truthy theme
            then map_option (\<lambda>t. js ''/api/stats/theme/'' @ t) (encodeURIComponent w theme)
            else Some (js ''/api/stats/duplicate-stocks''))
      else if statsType = js ''amount'' then Some (js ''/api/stats/amount-ranking'')
      else Some (js ''undefined''))"

definition loadStatsData_try :: "world \<Rightarrow> state \<Rightarrow> completion \<times> state" where
  "loadStatsData_try w s =
     (let statsType = statsTypeValue s;
          theme = themeSelectValue s
      in case statsUrl w statsType theme of
           None \<Rightarrow> (Thrown, s)
         | Some url \<Rightarrow>
             let s = fetch (js ''GET'') url s
             in case fetchStats w url of
                  Rejected \<Rightarrow> (Thrown, s)
                | Response ok body \<Rightarrow>
                    if \<not> ok then (Thrown, s)
                    else (case body of
                            None \<Rightarrow> (Thrown, s)
                          | Some data \<Rightarrow>
                              let s = s\<lparr>statsDateText := PREFIX_STATS_DATE @ stats_date data\<rparr>;
                                  s = updateStatsTableHeaders statsType s;
                                  stocks' =
                                    (if statsType = js ''duplicate'' \<and> truthy theme
                                     then (case duplicate_stocks data of Some xs \<Rightarrow> xs | None \<Rightarrow> [])
                                     else (case stocks data of Some xs \<Rightarrow> xs | None \<Rightarrow> []))
                              in (Normal, renderStatsTable w stocks' statsType s)))"

definition loadStatsData :: "world \<Rightarrow> state \<Rightarrow> state" where
  "loadStatsData w s =
     try_catch_finally (loadStatsData_try w)
       (\<lambda>s. alert ALERT_STATS (console_error (js ''Error loading stats data:'') s))
       hideLoading
       (showLoading LOADING_STATS s)"

subsection \<open>View switch (main.js lines 54-69)\<close>

definition switchView :: "world \<Rightarrow> jsstring \<Rightarrow> state \<Rightarrow> state" where
  "switchView w view s =
     (let s = s\<lparr>currentView := view\<rparr>
      in if view = js ''etf''
         then s\<lparr>etfDetailsHidden := False, statsViewHidden := True,
                welcomeMessageHidden := False, viewToggleText := TEXT_SHOW_STATS\<rparr>
         else loadStatsData w
                (s\<lparr>etfDetailsHidden := True, statsViewHidden := False,
                   welcomeMessageHidden := True, viewToggleText := TEXT_SHOW_ETF\<rparr>))"

subsection \<open>Event listeners (main.js lines 380-471)\<close>

text \<open>
  A listener runs on the state in which the browser has already stored the new value of
  the control. A click carries the position of the element it hit (a position past the
  end: no such element).
\<close>

definition etfSearch_input :: "world \<Rightarrow> jsstring \<Rightarrow> state \<Rightarrow> state" where
  "etfSearch_input w targetValue s =
     (let searchTerm = toLowerCase w targetValue;
          filteredEtfs =
            filter (\<lambda>etf. includes_str (toLowerCase w (name etf)) searchTerm \<or>
                           includes_str (ticker etf) searchTerm) (allEtfs s)
      in renderEtfList filteredEtfs s)"

fun removeActive :: "list_item list \<Rightarrow> list_item list" where
  \<comment> \<open>\<open>querySelector('.active')\<close> finds the first active item; its class is removed\<close>
  "removeActive [] = []"
| "removeActive (li # lis) =
     (if liActive li then li\<lparr>liActive := False\<rparr> # lis else li # removeActive lis)"

definition etfList_click :: "world \<Rightarrow> nat \<Rightarrow> state \<Rightarrow> state" where
  "etfList_click w target s =
     (if target < length (etfListItems s)
      then (case liTicker (etfListItems s ! target) of
              None \<Rightarrow> s
            | Some ticker' \<Rightarrow>
                if truthy ticker'
                then let lis = removeActive (etfListItems s);
                         s = s\<lparr>etfListItems := lis[target := (lis ! target)\<lparr>liActive := True\<rparr>]\<rparr>;
                         s = (if currentView s = js ''stats'' then switchView w (js ''etf'') s else s)
                     in fetchEtfDetails w ticker' s
                else s)
      else s)"

definition holdingsTableBody_click :: "world \<Rightarrow> nat \<Rightarrow> state \<Rightarrow> state" where
  "holdingsTableBody_click w target s =
     (if target < length (holdingsTableRows s)
      then (case (holdingsTableRows s ! target, currentEtfData s) of
              (HoldingRow stockTicker stockName _, Some d) \<Rightarrow>
                if truthy stockTicker then fetchStockHistory w (etf_ticker d) stockTicker stockName s
                else s
            | _ \<Rightarrow> s)
      else s)"

definition refreshBtn_click_try :: "world \<Rightarrow> state \<Rightarrow> completion \<times> state" where
  "refreshBtn_click_try w s =
     (let s = fetch (js ''POST'') (js ''/api/system/update'') s
      in case fetchSystem w (js ''/api/system/update'') of
           Rejected \<Rightarrow> (Thrown, s)
         | Response ok body \<Rightarrow>
             (case body of
                None \<Rightarrow> (Thrown, s)
              | Some result \<Rightarrow>
                  let s = alert (message result) s;
                      activeEtf = find liActive (etfListItems s)
                  in case activeEtf of
                       Some li \<Rightarrow>
                         if currentView s = js ''etf''
                         then (Normal,
                               fetchEtfDetails w
                                 (case liTicker li of Some t \<Rightarrow> t | None \<Rightarrow> js ''undefined'') s)
                         else if currentView s = js ''stats'' then (Normal, loadStatsData w s)
                         else (Normal, s)
                     | None \<Rightarrow>
                         if currentView s = js ''stats'' then (Normal, loadStatsData w s)
                         else (Normal, s)))"

definition refreshBtn_click :: "world \<Rightarrow> state \<Rightarrow> state" where
  "refreshBtn_click w s =
     try_catch_finally (refreshBtn_click_try w)
       (\<lambda>s. alert ALERT_REFRESH (console_error (js ''Refresh error:'') s))
       hideLoading
       (showLoading LOADING_REFRESH s)"

definition exportCsvBtn_click :: "state \<Rightarrow> state" where
  "exportCsvBtn_click s =
     (case currentEtfData s of
        Some d \<Rightarrow> s\<lparr>effects := effects s @ [Navigate (js ''/api/etf/'' @ etf_ticker d @ js ''/export'')]\<rparr>
      | None \<Rightarrow> alert ALERT_SELECT_FIRST s)"

definition viewToggle_click :: "world \<Rightarrow> state \<Rightarrow> state" where
  "viewToggle_click w s =
     (let newView = (if currentView s = js ''etf'' then js ''stats'' else js ''etf'')
      in switchView w newView s)"

definition statsTypeSelect_change :: "world \<Rightarrow> state \<Rightarrow> state" where
  "statsTypeSelect_change w s =
     (let statsType = statsTypeValue s;
          s = (if statsType = js ''duplicate'' then s\<lparr>themeSelectDisabled := False\<rparr>
               else s\<lparr>themeSelectDisabled := True, themeSelectValue := []\<rparr>)
      in if currentView s = js ''stats'' then loadStatsData w s else s)"

definition themeSelect_change :: "world \<Rightarrow> state \<Rightarrow> state" where
  "themeSelect_change w s = (if currentView s = js ''stats'' then loadStatsData w s else s)"

subsection \<open>The page as a transition system\<close>

datatype event =
    SearchInput jsstring
  | EtfListClick nat
  | HoldingsCountChange jsstring
  | HoldingsRowClick nat
  | RefreshClick
  | ExportCsvClick
  | ViewToggleClick
  | StatsTypeChange jsstring
  | ThemeChange jsstring

fun dispatch :: "world \<Rightarrow> event \<Rightarrow> state \<Rightarrow> state" where
  "dispatch w (SearchInput v) s = etfSearch_input w v s"
| "dispatch w (EtfListClick i) s = etfList_click w i s"
| "dispatch w (HoldingsCountChange v) s = renderHoldingsTable w (s\<lparr>holdingsCountValue := v\<rparr>)"
| "dispatch w (HoldingsRowClick i) s = holdingsTableBody_click w i s"
| "dispatch w RefreshClick s = refreshBtn_click w s"
| "dispatch w ExportCsvClick s = exportCsvBtn_click s"
| "dispatch w ViewToggleClick s = viewToggle_click w s"
| "dispatch w (StatsTypeChange v) s = statsTypeSelect_change w (s\<lparr>statsTypeValue := v\<rparr>)"
| "dispatch w (ThemeChange v) s = themeSelect_change w (s\<lparr>themeSelectValue := v\<rparr>)"

text \<open>
  The script starts with \<open>initializeApp\<close> (main.js line 474); from then on the page
  takes events, each with the world of its moment.
\<close>

inductive reachable :: "state \<Rightarrow> bool" where
  start: "initial s \<Longrightarrow> reachable (initializeApp w s)"
| step: "reachable s \<Longrightarrow> reachable (dispatch w e s)"

subsection \<open>Notions used in the statements\<close>

fun width :: "holdings_row \<Rightarrow> nat" where
  \<comment> \<open>the number of table columns a row takes\<close>
  "width (NoHoldingsRow c _) = c"
| "width (HoldingRow _ _ cells) = length cells"

fun firstCell :: "holdings_row \<Rightarrow> jsstring" where
  \<comment> \<open>the text of the first cell of a row, the rank of a row of data\<close>
  "firstCell (NoHoldingsRow _ t) = t"
| "firstCell (HoldingRow _ _ cells) = snd (hd cells)"

definition released :: "state \<Rightarrow> bool" where
  \<comment> \<open>the loading overlay is off and the page takes pointer events, as \<open>hideLoading\<close> leaves it\<close>
  "released s = (loadingOverlayDisplay s = js ''none'' \<and> bodyPointerEvents s = js ''auto'')"

definition requests :: "state \<Rightarrow> (jsstring \<times> jsstring) list" where
  \<comment> \<open>the network requests made so far, oldest first\<close>
  "requests s = concat (map (\<lambda>e. case e of Fetch m u \<Rightarrow> [(m, u)] | _ \<Rightarrow> []) (effects s))"



definition contains :: "jsstring \<Rightarrow> jsstring \<Rightarrow> bool" where
  \<comment> \<open>\<open>t\<close> occurs in \<open>s\<close> as a run of consecutive code units\<close>
  "contains s t = (\<exists>pre suf. s = pre @ t @ suf)"

definition tableWrite :: "effect \<Rightarrow> bool" where
  \<comment> \<open>the effect is a write to the body of the holdings table\<close>
  "tableWrite e = (case e of HoldingsBodySet rows \<Rightarrow> True | HoldingsRowAppend row \<Rightarrow> True
                   | _ \<Rightarrow> False)"

fun chartsAfter :: "nat set \<Rightarrow> effect \<Rightarrow> nat set" where
  "chartsAfter C (ChartConstructed c) = insert c C"
| "chartsAfter C (ChartDestroyed c) = C - {c}"
| "chartsAfter C _ = C"

definition live :: "effect list \<Rightarrow> nat set" where
  \<comment> \<open>the chart instances constructed and not yet destroyed after a run of effects\<close>
  "live es = foldl chartsAfter {} es"

fun calm :: "nat set \<Rightarrow> effect list \<Rightarrow> bool" where
  \<comment> \<open>starting with the instances \<open>C\<close>, no effect of the run leaves two instances alive\<close>
  "calm C [] = True"
| "calm C (e # es) = (card (chartsAfter C e) \<le> 1 \<and> calm (chartsAfter C e) es)"

definition chart_inv :: "state \<Rightarrow> bool" where
  \<comment> \<open>at no moment so far were two instances alive, and an instance that is alive now is
      the one \<open>weightChart\<close> refers to\<close>
  "chart_inv s = (calm {} (effects s) \<and> live (effects s) \<subseteq> set_option (weightChart s))"

subsection \<open>Sample worlds and states\<close>

definition asciiLower :: "16 word \<Rightarrow> 16 word" where
  "asciiLower c = (if 0x41 \<le> c \<and> c \<le> 0x5A then c + 0x20 else c)"

definition blank :: state where
  "blank =
     \<lparr>allEtfs = [], currentEtfData = None, holdingsData = [], weightChart = None,
      currentView = js ''etf'', allThemes = [], etfListItems = [],
      welcomeMessageHidden = False, etfDetailsHidden = True, statsViewHidden = True,
      chartContainerHidden = True, holdingsTableRows = [], statsTableRows = [],
      statsTableHeaders = [], holdingsCountValue = js ''5'', statsTypeValue = js ''duplicate'',
      themeSelectValue = [], themeSelectDisabled = False, themeSelectOptions = [],
      loadingTextContent = [], loadingOverlayDisplay = js ''none'',
      loadingOverlayPointerEvents = js ''auto'', bodyPointerEvents = js ''auto'',
      viewToggleText = [], etfNameText = [], etfTickerText = [], etfDatesText = [],
      statsDateText = [], stockNameChartText = [], charts = [], effects = []\<rparr>"

definition offline :: world where
  \<comment> \<open>every request is rejected\<close>
  "offline =
     \<lparr>toLowerCase = map asciiLower, numberToString = (\<lambda>_. []), encodeURIComponent = Some,
      fetchSystem = (\<lambda>_. Rejected), fetchEtfs = (\<lambda>_. Rejected), fetchThemes = (\<lambda>_. Rejected),
      fetchComparison = (\<lambda>_. Rejected), fetchHistory = (\<lambda>_. Rejected),
      fetchStats = (\<lambda>_. Rejected)\<rparr>"

definition kodex :: etf_comparison where
  "kodex =
     \<lparr>etf_ticker = js ''069500'', etf_name = Some (js ''KODEX 200''), prev_date = js ''2024-01-02'',
      current_date = js ''2024-01-03'',
      comparison =
        [\<lparr>stock_ticker = js ''005930'', stock_name = js ''Samsung'', prev_weight = 30,
          current_weight = 31, change = 1, current_amount = 150000000, status = STATUS_INCREASE\<rparr>]\<rparr>"

definition online :: world where
  \<comment> \<open>a backend with one ETF and one theme that answers every request\<close>
  "online =
     \<lparr>toLowerCase = map asciiLower, numberToString = (\<lambda>_. []), encodeURIComponent = Some,
      fetchSystem = (\<lambda>_. Response True (Some \<lparr>message = js ''done''\<rparr>)),
      fetchEtfs = (\<lambda>_. Response True (Some [\<lparr>ticker = js ''069500'', name = js ''KODEX 200''\<rparr>])),
      fetchThemes = (\<lambda>_. Response True (Some \<lparr>themes = Some [js ''AI'']\<rparr>)),
      fetchComparison = (\<lambda>_. Response True (Some kodex)),
      fetchHistory =
        (\<lambda>_. Response True
               (Some \<lparr>history = [\<lparr>date = js ''2024-01-03'', weight = 31, amount = 150000000\<rparr>]\<rparr>)),
      fetchStats =
        (\<lambda>_. Response True (Some \<lparr>stats_date = js ''2024-01-03'', stocks = None, duplicate_stocks = None\<rparr>))\<rparr>"


definition kbstar :: "etf list" where
  "kbstar = [\<lparr>ticker = js ''KB0001'', name = js ''Bond Plus''\<rparr>,
            \<lparr>ticker = js ''069500'', name = js ''KODEX 200''\<rparr>]"

definition eightHoldings :: "holding list" where
  "eightHoldings =
     map (\<lambda>n. \<lparr>stock_ticker = decimal n, stock_name = js ''S'' @ decimal n, prev_weight = 1,
               current_weight = 2, change = 1, current_amount = 150000000,
               status = STATUS_INCREASE\<rparr>) [0 ..< 8]"

definition detailLoaded :: state where
  \<comment> \<open>the page after start-up and a click on the first item of the list\<close>
  "detailLoaded = dispatch online (EtfListClick 0) (initializeApp online blank)"

definition inStatsView :: state where
  \<comment> \<open>then the view is toggled to the statistics\<close>
  "inStatsView = dispatch online ViewToggleClick detailLoaded"

definition chartShown :: state where
  \<comment> \<open>the page after start-up, a click on the first ETF and a click on its first holding\<close>
  "chartShown = dispatch online (HoldingsRowClick 0) detailLoaded"

section \<open>Properties\<close>

subsection \<open>Basic facts\<close>

lemma js_char_inj: "((of_nat (of_char c) :: 16 word) = of_nat (of_char d)) = (c = d)"
proof -
  have lt: "(of_char c :: nat) < 65536" for c :: char
    using nat_of_char_less_256 [of c] by linarith
  have "unat (of_nat (of_char c :: nat) :: 16 word) = of_char c" for c :: char
    by (simp add: unat_of_nat lt)
  then have "(of_char c :: nat) = of_char d"
    if "(of_nat (of_char c) :: 16 word) = of_nat (of_char d)"
    using that by metis
  then show ?thesis by auto
qed

lemma js_eq_iff [simp]: "(js a = js b) = (a = b)"
proof -
  have "inj (\<lambda>c::char. (of_nat (of_char c) :: 16 word))"
    by (rule injI) (simp add: js_char_inj)
  then show ?thesis unfolding js_def by (rule inj_map_eq_map)
qed

lemma js_Nil [simp]: "js [] = []"
  by (simp add: js_def)

lemma js_eq_Nil [simp]: "(js a = []) = (a = [])" "([] = js a) = (a = [])"
  by (auto simp add: js_def)

lemma array_slice_Nil [simp]: "array_slice [] start e = []"
  by (simp add: array_slice_def)

lemmas handler_defs =
  try_catch_finally_def try_catch_def alert_def console_error_def fetch_def
  showLoading_def hideLoading_def Let_def

lemma appendHoldingsRows:
  "foldl (\<lambda>s (index, item). appendHoldingsRow (f item index) s) s xs =
     s\<lparr>holdingsTableRows := holdingsTableRows s @ map (\<lambda>(index, item). f item index) xs,
       effects := effects s @ map (\<lambda>(index, item). HoldingsRowAppend (f item index)) xs\<rparr>"
proof (induction xs arbitrary: s)
  case Nil
  show ?case by simp
next
  case (Cons x xs)
  show ?case
    by (cases x) (simp add: Cons.IH, simp add: appendHoldingsRow_def)
qed

lemma renderHoldingsTable_eq:
  "renderHoldingsTable w s =
     (let count = holdingsCountValue s;
          dataToShow = (if count = js ''all'' then holdingsData s
                        else array_slice (holdingsData s) 0 (parseInt count))
      in if dataToShow = []
         then s\<lparr>holdingsTableRows := [NoHoldingsRow 7 TEXT_NO_HOLDINGS],
                effects := effects s @ [HoldingsBodySet [],
                                        HoldingsBodySet [NoHoldingsRow 7 TEXT_NO_HOLDINGS]]\<rparr>
         else s\<lparr>holdingsTableRows :=
                  map (\<lambda>(index, item). holdingsRow w item index) (enumerate 0 dataToShow),
                effects := effects s @ HoldingsBodySet [] #
                  map (\<lambda>(index, item). HoldingsRowAppend (holdingsRow w item index))
                    (enumerate 0 dataToShow)\<rparr>)"
  by (simp add: renderHoldingsTable_def setHoldingsBody_def appendHoldingsRows Let_def)

lemma rowAppends_chartsAfter [simp]:
  "foldl chartsAfter C (map (\<lambda>(index, item). HoldingsRowAppend (f item index)) xs) = C"
  by (induction xs) (auto split: prod.splits)

lemma rowAppends_calm [simp]:
  "calm C (map (\<lambda>(index, item). HoldingsRowAppend (f item index)) xs) = (xs = [] \<or> card C \<le> 1)"
  by (induction xs) (auto split: prod.splits)

lemma rowAppends_tableWrite [simp]:
  "list_all tableWrite (map (\<lambda>(index, item). HoldingsRowAppend (f item index)) xs)"
  by (induction xs) (auto simp add: tableWrite_def split: prod.splits)

lemma renderHoldingsTable_writes:
  "\<exists>tw. effects (renderHoldingsTable w s) = effects s @ tw \<and> tw \<noteq> [] \<and> list_all tableWrite tw"
  by (simp add: renderHoldingsTable_eq Let_def tableWrite_def)

lemmas render_defs =
  renderEtfList_def renderHoldingsTable_eq renderStatsTable_def updateStatsTableHeaders_def
  renderWeightChart_def destroyChart_def newChart_def hideChartPanel_def showChartPanel_def

subsection \<open>The loading guard\<close>

lemma try_catch_finally_released:
  "released (try_catch_finally body handler hideLoading s)"
  by (simp add: try_catch_finally_def hideLoading_def released_def)

lemma api_released:
  "released (initializeApp w s)"
  "released (fetchEtfDetails w t s)"
  "released (fetchStockHistory w e st sn s)"
  "released (loadStatsData w s)"
  "released (refreshBtn_click w s)"
  by (simp_all add: initializeApp_def fetchEtfDetails_def fetchStockHistory_def loadStatsData_def
      refreshBtn_click_def try_catch_finally_released)

lemma switchView_guard:
  "released (switchView w v s) \<or>
   (loadingOverlayDisplay (switchView w v s) = loadingOverlayDisplay s \<and>
    bodyPointerEvents (switchView w v s) = bodyPointerEvents s)"
  by (simp add: switchView_def Let_def api_released)

lemma dispatch_guard:
  "released (dispatch w e s) \<or>
   (loadingOverlayDisplay (dispatch w e s) = loadingOverlayDisplay s \<and>
    bodyPointerEvents (dispatch w e s) = bodyPointerEvents s)"
proof (cases e)
  case (SearchInput v)
  then show ?thesis by (simp add: etfSearch_input_def renderEtfList_def Let_def)
next
  case (EtfListClick i)
  then show ?thesis by (simp add: etfList_click_def api_released Let_def split: option.splits)
next
  case (HoldingsCountChange v)
  then show ?thesis by (simp add: renderHoldingsTable_eq Let_def)
next
  case (HoldingsRowClick i)
  then show ?thesis
    by (simp add: holdingsTableBody_click_def api_released
        split: holdings_row.splits option.splits)
next
  case RefreshClick
  then show ?thesis by (simp add: api_released)
next
  case ExportCsvClick
  then show ?thesis by (simp add: exportCsvBtn_click_def alert_def split: option.splits)
next
  case ViewToggleClick
  then show ?thesis using switchView_guard by (simp add: viewToggle_click_def Let_def)
next
  case (StatsTypeChange v)
  then show ?thesis by (simp add: statsTypeSelect_change_def api_released Let_def)
next
  case (ThemeChange v)
  then show ?thesis by (simp add: themeSelect_change_def api_released)
qed

text \<open>
  \<^bold>\<open>C6.\<close> Every operation that engages the loading guard releases it on every path
  on which it completes. Each function that calls \<open>showLoading\<close> (\<open>initializeApp\<close>,
  \<open>fetchEtfDetails\<close>, \<open>fetchStockHistory\<close>, \<open>loadStatsData\<close>, the refresh listener)
  ends, whatever the world replies, in a state where the overlay is off and the page
  takes pointer events; this is so for any \<open>try\<close> block whose \<open>finally\<close> is
  \<open>hideLoading\<close>, whether the block throws or not. No listener ends in a throw: after
  any event the guard is released or was not touched.
\<close>

theorem loading_guard_released:
  "released (initializeApp w s) \<and>
   released (fetchEtfDetails w t s) \<and>
   released (fetchStockHistory w e st sn s) \<and>
   released (loadStatsData w s) \<and>
   released (refreshBtn_click w s) \<and>
   released (try_catch_finally body handler hideLoading s) \<and>
   (released (dispatch w ev s) \<or>
    (loadingOverlayDisplay (dispatch w ev s) = loadingOverlayDisplay s \<and>
     bodyPointerEvents (dispatch w ev s) = bodyPointerEvents s))"
  using dispatch_guard [of w ev s]
  by (simp add: api_released try_catch_finally_released)

theorem loading_guard_released_offline:
  "released (fetchEtfDetails offline (js ''069500'') blank) \<and>
   released (refreshBtn_click offline blank) \<and>
   released (dispatch online (EtfListClick 0) (initializeApp online blank))"
  using loading_guard_released [where w = offline and s = blank and t = "js ''069500''"]
    loading_guard_released [where w = online and s = "initializeApp online blank"
      and ev = "EtfListClick 0"]
    api_released(1) [of online blank]
  by (auto simp add: released_def)

subsection \<open>Error paths\<close>











subsection \<open>The holdings table without data\<close>

text \<open>
  \<^bold>\<open>C8.\<close> For every value of the count selector, the holdings renderer on an empty
  comparison array leaves exactly one row in the table body: the placeholder. It spans 7
  columns, which is the full width: every row of data has 7 cells.
\<close>

theorem holdings_empty_placeholder:
  "holdingsTableRows (renderHoldingsTable w (s\<lparr>holdingsData := [], holdingsCountValue := v\<rparr>)) =
     [NoHoldingsRow 7 TEXT_NO_HOLDINGS] \<and>
   width (holdingsRow w item i) = 7"
  by (simp add: renderHoldingsTable_eq holdingsRow_def Let_def)

subsection \<open>The statistics controls\<close>

lemma loadStatsData_frame:
  "themeSelectDisabled (loadStatsData w s) = themeSelectDisabled s"
  "themeSelectValue (loadStatsData w s) = themeSelectValue s"
  "currentView (loadStatsData w s) = currentView s"
  "currentEtfData (loadStatsData w s) = currentEtfData s"
  "holdingsTableRows (loadStatsData w s) = holdingsTableRows s"
  "etfListItems (loadStatsData w s) = etfListItems s"
  "etfNameText (loadStatsData w s) = etfNameText s"
  "etfDetailsHidden (loadStatsData w s) = etfDetailsHidden s"
  "welcomeMessageHidden (loadStatsData w s) = welcomeMessageHidden s"
  "weightChart (loadStatsData w s) = weightChart s"
  "charts (loadStatsData w s) = charts s"
  by (simp_all add: loadStatsData_def loadStatsData_try_def handler_defs
      renderStatsTable_def updateStatsTableHeaders_def
      split: reply.splits option.splits)

text \<open>
  \<^bold>\<open>C9.\<close> After a change of the statistics type to \<open>v\<close>, the theme selector is
  disabled exactly when \<open>v\<close> is not \<open>duplicate\<close>; when it is disabled its value is the
  empty string (and otherwise its value is as before). In the statistics view the
  listener goes on to \<open>loadStatsData\<close>; in any other view it makes no request and leaves
  the statistics table alone.
\<close>

theorem statsType_change_theme_selector:
  "themeSelectDisabled (dispatch w (StatsTypeChange v) s) = (v \<noteq> js ''duplicate'') \<and>
   (if v = js ''duplicate''
    then themeSelectValue (dispatch w (StatsTypeChange v) s) = themeSelectValue s
    else themeSelectValue (dispatch w (StatsTypeChange v) s) = []) \<and>
   (if currentView s = js ''stats''
    then dispatch w (StatsTypeChange v) s =
           loadStatsData w
             (if v = js ''duplicate''
              then s\<lparr>statsTypeValue := v, themeSelectDisabled := False\<rparr>
              else s\<lparr>statsTypeValue := v, themeSelectDisabled := True, themeSelectValue := []\<rparr>)
    else effects (dispatch w (StatsTypeChange v) s) = effects s \<and>
         statsTableRows (dispatch w (StatsTypeChange v) s) = statsTableRows s)"
  by (simp add: statsTypeSelect_change_def Let_def loadStatsData_frame)

theorem statsType_change_to_amount:
  "themeSelectDisabled
     (dispatch offline (StatsTypeChange (js ''amount'')) (blank\<lparr>themeSelectValue := js ''AI''\<rparr>)) \<and>
   themeSelectValue
     (dispatch offline (StatsTypeChange (js ''amount'')) (blank\<lparr>themeSelectValue := js ''AI''\<rparr>)) = [] \<and>
   effects
     (dispatch offline (StatsTypeChange (js ''amount'')) (blank\<lparr>themeSelectValue := js ''AI''\<rparr>)) = []"
  using statsType_change_theme_selector
    [where w = offline and v = "js ''amount''" and s = "blank\<lparr>themeSelectValue := js ''AI''\<rparr>"]
  by (simp add: blank_def)

subsection \<open>The refresh action\<close>

lemma requests_fetchEtfDetails:
  "requests (fetchEtfDetails w t s) =
     requests s @ [(js ''GET'', js ''/api/etf/'' @ t @ js ''/comparison'')]"
  by (simp add: requests_def fetchEtfDetails_def fetchEtfDetails_try_def handler_defs
      render_defs case_prod_beta split: reply.splits option.splits)

lemma requests_loadStatsData:
  "requests (loadStatsData w s) =
     requests s @ (case statsUrl w (statsTypeValue s) (themeSelectValue s) of
                     Some url \<Rightarrow> [(js ''GET'', url)] | None \<Rightarrow> [])"
  by (simp add: requests_def loadStatsData_def loadStatsData_try_def handler_defs
      render_defs split: reply.splits option.splits)

lemma requests_hideLoading [simp]: "requests (hideLoading s) = requests s"
  by (simp add: requests_def hideLoading_def)

lemma fetchEtfDetails_frame:
  "currentView (fetchEtfDetails w t s) = currentView s"
  "etfListItems (fetchEtfDetails w t s) = etfListItems s"
  "statsTableRows (fetchEtfDetails w t s) = statsTableRows s"
  by (simp_all add: fetchEtfDetails_def fetchEtfDetails_try_def handler_defs
      render_defs split: reply.splits option.splits)

lemma refreshBtn_click_decoded:
  assumes "fetchSystem w (js ''/api/system/update'') = Response ok (Some result)"
  shows "refreshBtn_click w s =
     hideLoading
       (let s0 = alert (message result)
                   (fetch (js ''POST'') (js ''/api/system/update'') (showLoading LOADING_REFRESH s))
        in if find liActive (etfListItems s) \<noteq> None \<and> currentView s = js ''etf''
           then fetchEtfDetails w
                  (case liTicker (the (find liActive (etfListItems s))) of
                     Some t \<Rightarrow> t | None \<Rightarrow> js ''undefined'') s0
           else if currentView s = js ''stats'' then loadStatsData w s0
           else s0)"
  using assms
  by (simp add: refreshBtn_click_def refreshBtn_click_try_def try_catch_finally_def try_catch_def
      alert_def fetch_def showLoading_def Let_def split: option.splits)

text \<open>
  \<^bold>\<open>C7.\<close> Let the update call of the refresh action return a body that decodes, and
  let \<open>s0\<close> be the state in which its message has been shown. In the ETF view with an
  active list item of ticker \<open>t\<close>, the listener continues with \<open>fetchEtfDetails\<close> for
  \<open>t\<close>: the requests made are the update and the comparison of \<open>t\<close>. In the statistics
  view it continues with \<open>loadStatsData\<close>, whether or not an ETF is active or loaded: the
  requests made are the update and the statistics request, and the loaded ETF, its rows
  and the list are as before.
\<close>

theorem refresh_reloads_current_view:
  assumes "fetchSystem w (js ''/api/system/update'') = Response ok (Some result)"
  shows
   "(currentView s = js ''etf'' \<and> find liActive (etfListItems s) = Some li \<and> liTicker li = Some t \<longrightarrow>
       refreshBtn_click w s =
         hideLoading (fetchEtfDetails w t
           (alert (message result)
              (fetch (js ''POST'') (js ''/api/system/update'') (showLoading LOADING_REFRESH s)))) \<and>
       requests (refreshBtn_click w s) =
         requests s @ [(js ''POST'', js ''/api/system/update''),
                       (js ''GET'', js ''/api/etf/'' @ t @ js ''/comparison'')]) \<and>
    (currentView s = js ''stats'' \<longrightarrow>
       refreshBtn_click w s =
         hideLoading (loadStatsData w
           (alert (message result)
              (fetch (js ''POST'') (js ''/api/system/update'') (showLoading LOADING_REFRESH s)))) \<and>
       requests (refreshBtn_click w s) =
         requests s @ (js ''POST'', js ''/api/system/update'') #
           (case statsUrl w (statsTypeValue s) (themeSelectValue s) of
              Some url \<Rightarrow> [(js ''GET'', url)] | None \<Rightarrow> []) \<and>
       currentEtfData (refreshBtn_click w s) = currentEtfData s \<and>
       holdingsTableRows (refreshBtn_click w s) = holdingsTableRows s \<and>
       etfListItems (refreshBtn_click w s) = etfListItems s)"
proof -
  let ?s0 = "alert (message result)
    (fetch (js ''POST'') (js ''/api/system/update'') (showLoading LOADING_REFRESH s))"
  have s0: "requests ?s0 = requests s @ [(js ''POST'', js ''/api/system/update'')]"
    "statsTypeValue ?s0 = statsTypeValue s" "themeSelectValue ?s0 = themeSelectValue s"
    "currentEtfData ?s0 = currentEtfData s" "holdingsTableRows ?s0 = holdingsTableRows s"
    "etfListItems ?s0 = etfListItems s"
    by (simp_all add: requests_def alert_def fetch_def showLoading_def)
  have etf: "refreshBtn_click w s = hideLoading (fetchEtfDetails w t ?s0)"
    if "currentView s = js ''etf''" "find liActive (etfListItems s) = Some li" "liTicker li = Some t"
    using that by (simp add: refreshBtn_click_decoded [OF assms])
  have stats: "refreshBtn_click w s = hideLoading (loadStatsData w ?s0)"
    if "currentView s = js ''stats''"
    using that by (simp add: refreshBtn_click_decoded [OF assms])
  show ?thesis
  proof (intro conjI impI)
    assume a: "currentView s = js ''etf'' \<and> find liActive (etfListItems s) = Some li \<and>
      liTicker li = Some t"
    then show "refreshBtn_click w s = hideLoading (fetchEtfDetails w t ?s0)"
      using etf by blast
    from a show "requests (refreshBtn_click w s) =
         requests s @ [(js ''POST'', js ''/api/system/update''),
                       (js ''GET'', js ''/api/etf/'' @ t @ js ''/comparison'')]"
      using etf by (simp add: requests_fetchEtfDetails s0)
  next
    assume a: "currentView s = js ''stats''"
    then show "refreshBtn_click w s = hideLoading (loadStatsData w ?s0)"
      using stats by blast
    from a show "requests (refreshBtn_click w s) =
         requests s @ (js ''POST'', js ''/api/system/update'') #
           (case statsUrl w (statsTypeValue s) (themeSelectValue s) of
              Some url \<Rightarrow> [(js ''GET'', url)] | None \<Rightarrow> [])"
      using stats by (simp add: requests_loadStatsData s0)
    from a show "currentEtfData (refreshBtn_click w s) = currentEtfData s"
      using stats by (simp add: hideLoading_def loadStatsData_frame s0)
    from a show "holdingsTableRows (refreshBtn_click w s) = holdingsTableRows s"
      using stats by (simp add: hideLoading_def loadStatsData_frame s0)
    from a show "etfListItems (refreshBtn_click w s) = etfListItems s"
      using stats by (simp add: hideLoading_def loadStatsData_frame s0)
  qed
qed

theorem refresh_reloads_current_view_online:
  "fetchSystem online (js ''/api/system/update'') = Response True (Some \<lparr>message = js ''done''\<rparr>) \<and>
   requests (refreshBtn_click online
      (blank\<lparr>etfListItems := [\<lparr>liText = js ''KODEX 200'', liTicker = Some (js ''069500''),
                                  liActive = True\<rparr>]\<rparr>)) =
     [(js ''POST'', js ''/api/system/update''),
      (js ''GET'', js ''/api/etf/'' @ js ''069500'' @ js ''/comparison'')] \<and>
   requests (refreshBtn_click online
      (blank\<lparr>currentView := js ''stats'', currentEtfData := Some kodex,
             etfListItems := [\<lparr>liText = js ''KODEX 200'', liTicker = Some (js ''069500''),
                                liActive = True\<rparr>]\<rparr>)) =
     [(js ''POST'', js ''/api/system/update''), (js ''GET'', js ''/api/stats/duplicate-stocks'')]"
proof -
  let ?li = "\<lparr>liText = js ''KODEX 200'', liTicker = Some (js ''069500''), liActive = True\<rparr>"
  let ?a = "blank\<lparr>etfListItems := [?li]\<rparr>"
  let ?b = "blank\<lparr>currentView := js ''stats'', currentEtfData := Some kodex,
    etfListItems := [?li]\<rparr>"
  have 1: "fetchSystem online (js ''/api/system/update'') =
      Response True (Some \<lparr>message = js ''done''\<rparr>)"
    by (simp add: online_def)
  have a: "currentView ?a = js ''etf''" "find liActive (etfListItems ?a) = Some ?li"
    "requests ?a = []"
    by (simp_all add: blank_def requests_def)
  have b: "currentView ?b = js ''stats''" "requests ?b = []"
    "statsUrl online (statsTypeValue ?b) (themeSelectValue ?b) =
       Some (js ''/api/stats/duplicate-stocks'')"
    by (simp_all add: blank_def requests_def statsUrl_def truthy_def)
  have "liTicker ?li = Some (js ''069500'')"
    by simp
  with a refresh_reloads_current_view [OF 1, where s = ?a and li = ?li and t = "js ''069500''"]
  have "requests (refreshBtn_click online ?a) =
     requests ?a @ [(js ''POST'', js ''/api/system/update''),
      (js ''GET'', js ''/api/etf/'' @ js ''069500'' @ js ''/comparison'')]"
    by blast
  then have 2: "requests (refreshBtn_click online ?a) =
     [(js ''POST'', js ''/api/system/update''),
      (js ''GET'', js ''/api/etf/'' @ js ''069500'' @ js ''/comparison'')]"
    by (simp only: a append_Nil)
  from b refresh_reloads_current_view [OF 1, where s = ?b]
  have "requests (refreshBtn_click online ?b) =
     requests ?b @ (js ''POST'', js ''/api/system/update'') #
       (case statsUrl online (statsTypeValue ?b) (themeSelectValue ?b) of
          Some url \<Rightarrow> [(js ''GET'', url)] | None \<Rightarrow> [])"
    by blast
  then have 3: "requests (refreshBtn_click online ?b) =
     [(js ''POST'', js ''/api/system/update''), (js ''GET'', js ''/api/stats/duplicate-stocks'')]"
    by (simp only: b append_Nil option.case)
  show ?thesis
    using 1 2 3 by simp
qed

subsection \<open>The view toggle\<close>

lemma viewToggle_from_stats:
  "currentView s = js ''stats'' \<Longrightarrow>
   viewToggle_click w s =
     s\<lparr>currentView := js ''etf'', etfDetailsHidden := False, statsViewHidden := True,
       welcomeMessageHidden := False, viewToggleText := TEXT_SHOW_STATS\<rparr>"
  by (simp add: viewToggle_click_def switchView_def Let_def)

lemma viewToggle_from_etf:
  "currentView s = js ''etf'' \<Longrightarrow>
   viewToggle_click w s =
     loadStatsData w
       (s\<lparr>currentView := js ''stats'', etfDetailsHidden := True, statsViewHidden := False,
          welcomeMessageHidden := True, viewToggleText := TEXT_SHOW_ETF\<rparr>)"
  by (simp add: viewToggle_click_def switchView_def Let_def)

lemma initializeApp_online:
  "etfListItems (initializeApp online blank) =
     [\<lparr>liText = js ''KODEX 200'', liTicker = Some (js ''069500''), liActive = False\<rparr>]"
  "currentView (initializeApp online blank) = js ''etf''"
  by (simp_all add: initializeApp_def initializeApp_try_def handler_defs online_def blank_def
      fetchEtfList_def fetchEtfList_try_def loadThemes_def loadThemes_try_def renderEtfList_def)

lemma detailLoaded_eq:
  "detailLoaded =
     fetchEtfDetails online (js ''069500'')
       ((initializeApp online blank)
          \<lparr>etfListItems := [\<lparr>liText = js ''KODEX 200'', liTicker = Some (js ''069500''),
                               liActive = True\<rparr>]\<rparr>)"
  by (simp add: detailLoaded_def initializeApp_online etfList_click_def truthy_def)

lemma parseInt_5: "parseInt (js ''5'') = Some 5"
  by (simp add: parseInt_def js_def isWhiteSpace_def digitValue_def)

lemma fetchEtfDetails_loaded:
  assumes "fetchComparison w (js ''/api/etf/'' @ t @ js ''/comparison'') = Response True (Some d)"
  shows "currentEtfData (fetchEtfDetails w t s) = Some d"
    "\<not> etfDetailsHidden (fetchEtfDetails w t s)"
    "welcomeMessageHidden (fetchEtfDetails w t s)"
    "etfNameText (fetchEtfDetails w t s) =
       or_else (etf_name d)
         (or_else (map_option name (find (\<lambda>e. ticker e = t) (allEtfs s))) (js ''Unknown ETF''))"
    "holdingsTableRows (fetchEtfDetails w t s) =
       holdingsTableRows (renderHoldingsTable w (s\<lparr>holdingsData := comparison d\<rparr>))"
  using assms
  by (simp_all add: fetchEtfDetails_def fetchEtfDetails_try_def handler_defs render_defs
      split: option.splits)

lemma detailLoaded_facts:
  "currentEtfData detailLoaded = Some kodex"
  "currentView detailLoaded = js ''etf''"
  "etfNameText detailLoaded = js ''KODEX 200''"
  "holdingsTableRows detailLoaded = [holdingsRow online (hd (comparison kodex)) 0]"
proof -
  have r: "fetchComparison online (js ''/api/etf/'' @ js ''069500'' @ js ''/comparison'') =
      Response True (Some kodex)"
    by (simp add: online_def)
  show "currentEtfData detailLoaded = Some kodex"
    by (simp add: detailLoaded_eq fetchEtfDetails_loaded [OF r])
  show "currentView detailLoaded = js ''etf''"
    by (simp add: detailLoaded_eq fetchEtfDetails_frame initializeApp_online)
  show "etfNameText detailLoaded = js ''KODEX 200''"
    by (simp add: detailLoaded_eq fetchEtfDetails_loaded [OF r] or_else_def kodex_def truthy_def)
  have "holdingsCountValue (initializeApp online blank) = js ''5''"
    by (simp add: initializeApp_def initializeApp_try_def handler_defs online_def blank_def
      fetchEtfList_def fetchEtfList_try_def loadThemes_def loadThemes_try_def renderEtfList_def)
  then show "holdingsTableRows detailLoaded = [holdingsRow online (hd (comparison kodex)) 0]"
    by (simp add: detailLoaded_eq fetchEtfDetails_loaded [OF r] renderHoldingsTable_eq
        parseInt_5 array_slice_def kodex_def)
qed

lemma reachable_inStatsView: "reachable inStatsView"
proof -
  have "initial blank"
    by (simp add: initial_def blank_def)
  then have "reachable (initializeApp online blank)"
    by (rule reachable.start)
  then have "reachable detailLoaded"
    unfolding detailLoaded_def by (rule reachable.step)
  then show ?thesis
    unfolding inStatsView_def by (rule reachable.step)
qed

lemma inStatsView_facts:
  "currentView inStatsView = js ''stats''"
  "currentEtfData inStatsView = Some kodex"
  "etfNameText inStatsView = js ''KODEX 200''"
  "holdingsTableRows inStatsView = [holdingsRow online (hd (comparison kodex)) 0]"
  by (simp_all add: inStatsView_def viewToggle_from_etf detailLoaded_facts loadStatsData_frame)

text \<open>
  \<^bold>\<open>C5\<close>, as the claim states it, fails. Start the page, click the first ETF of
  the list, and toggle to the statistics: this state is reachable, it is in the statistics
  view and an ETF detail is loaded. Toggling back un-hides the details panel, and the
  panel still holds the name and the rows of that ETF.
\<close>

theorem toggle_back_shows_loaded_detail:
  "reachable inStatsView \<and>
   currentView inStatsView = js ''stats'' \<and>
   currentEtfData inStatsView = Some kodex \<and>
   \<not> etfDetailsHidden (dispatch online ViewToggleClick inStatsView) \<and>
   etfNameText (dispatch online ViewToggleClick inStatsView) = js ''KODEX 200'' \<and>
   holdingsTableRows (dispatch online ViewToggleClick inStatsView) =
     [holdingsRow online (hd (comparison kodex)) 0]"
  by (simp add: reachable_inStatsView inStatsView_facts viewToggle_from_stats)

text \<open>
  \<^bold>\<open>C5\<close>, amended. Toggling the view from the statistics view to the ETF view
  un-hides the welcome panel and the ETF details panel, hides the statistics panel, sets
  the caption of the button, and changes nothing else: no request is made, and the
  details panel holds what was rendered into it last (the name and the rows of the ETF
  loaded before, if there is one).
\<close>

theorem view_toggle_to_etf:
  "currentView s = js ''stats'' \<Longrightarrow>
   dispatch w ViewToggleClick s =
     s\<lparr>currentView := js ''etf'', etfDetailsHidden := False, statsViewHidden := True,
       welcomeMessageHidden := False, viewToggleText := TEXT_SHOW_STATS\<rparr> \<and>
   \<not> welcomeMessageHidden (dispatch w ViewToggleClick s) \<and>
   \<not> etfDetailsHidden (dispatch w ViewToggleClick s) \<and>
   statsViewHidden (dispatch w ViewToggleClick s) \<and>
   currentEtfData (dispatch w ViewToggleClick s) = currentEtfData s \<and>
   etfNameText (dispatch w ViewToggleClick s) = etfNameText s \<and>
   holdingsTableRows (dispatch w ViewToggleClick s) = holdingsTableRows s \<and>
   effects (dispatch w ViewToggleClick s) = effects s"
  by (simp add: viewToggle_from_stats)

theorem view_toggle_to_etf_after_detail:
  "currentView inStatsView = js ''stats'' \<and>
   \<not> welcomeMessageHidden (dispatch online ViewToggleClick inStatsView) \<and>
   \<not> etfDetailsHidden (dispatch online ViewToggleClick inStatsView) \<and>
   currentEtfData (dispatch online ViewToggleClick inStatsView) = Some kodex"
  using view_toggle_to_etf [where s = inStatsView and w = online]
  by (simp add: inStatsView_facts)

subsection \<open>The search filter\<close>

lemma includes_str_contains: "includes_str s t = contains s t"
proof
  assume "includes_str s t"
  then obtain k where "k \<in> set [0 ..< Suc (length s)]" and k: "take (length t) (drop k s) = t"
    unfolding includes_str_def list_ex_iff by blast
  have "drop k s = take (length t) (drop k s) @ drop (length t) (drop k s)"
    by (rule append_take_drop_id [symmetric])
  with k have "drop k s = t @ drop (length t) (drop k s)"
    by simp
  then have "s = take k s @ t @ drop (length t) (drop k s)"
    by (metis append_take_drop_id)
  then show "contains s t"
    unfolding contains_def by blast
next
  assume "contains s t"
  then obtain pre suf where s: "s = pre @ t @ suf"
    unfolding contains_def by blast
  then have "length pre \<in> set [0 ..< Suc (length s)]"
    "take (length t) (drop (length pre) s) = t"
    by simp_all
  then show "includes_str s t"
    unfolding includes_str_def list_ex_iff by blast
qed

text \<open>
  \<^bold>\<open>C10.\<close> For every ETF list and every query, the search listener renders exactly
  the ETFs, in their order, whose lowercased name contains the lowercased query or whose
  ticker, as it is, contains the lowercased query. \<open>toLowerCase\<close> is the one of the world,
  whatever it is.
\<close>

theorem search_filter:
  "etfSearch_input w q s =
     renderEtfList
       (filter (\<lambda>e. contains (toLowerCase w (name e)) (toLowerCase w q) \<or>
                    contains (ticker e) (toLowerCase w q)) (allEtfs s)) s"
  by (simp add: etfSearch_input_def Let_def includes_str_contains)

lemma asciiLower_simps:
  "map asciiLower (js ''KODEX'') = js ''kodex''"
  "map asciiLower (js ''kb'') = js ''kb''"
  "map asciiLower (js ''KB'') = js ''kb''"
  "map asciiLower (js ''Bond Plus'') = js ''bond plus''"
  "map asciiLower (js ''KODEX 200'') = js ''kodex 200''"
  by (simp_all add: asciiLower_def js_def)

lemma includes_str_samples:
  "includes_str (js ''kodex 200'') (js ''kodex'')"
  "\<not> includes_str (js ''bond plus'') (js ''kodex'')"
  "\<not> includes_str (js ''KB0001'') (js ''kodex'')"
  "\<not> includes_str (js ''069500'') (js ''kodex'')"
  "\<not> includes_str (js ''kodex 200'') (js ''kb'')"
  "\<not> includes_str (js ''bond plus'') (js ''kb'')"
  "\<not> includes_str (js ''KB0001'') (js ''kb'')"
  "\<not> includes_str (js ''069500'') (js ''kb'')"
  by (simp_all add: includes_str_def js_def)

text \<open>
  With ASCII lowercasing: the query \<open>KODEX\<close> finds the ETF named \<open>KODEX 200\<close>, but
  neither the query \<open>KB\<close> nor \<open>kb\<close> finds the ETF whose ticker is \<open>KB0001\<close>: the
  ticker is compared as it is with the lowercased query.
\<close>

theorem search_filter_case:
  "etfListItems (etfSearch_input online (js ''KODEX'') (blank\<lparr>allEtfs := kbstar\<rparr>)) =
     [\<lparr>liText = js ''KODEX 200'', liTicker = Some (js ''069500''), liActive = False\<rparr>] \<and>
   etfListItems (etfSearch_input online (js ''KB'') (blank\<lparr>allEtfs := kbstar\<rparr>)) =
     [\<lparr>liText = TEXT_NO_ETFS, liTicker = None, liActive = False\<rparr>] \<and>
   etfListItems (etfSearch_input online (js ''kb'') (blank\<lparr>allEtfs := kbstar\<rparr>)) =
     [\<lparr>liText = TEXT_NO_ETFS, liTicker = None, liActive = False\<rparr>]"
proof -
  have lc: "toLowerCase online = map asciiLower"
    by (simp add: online_def)
  show ?thesis
    unfolding search_filter
    by (simp add: lc kbstar_def asciiLower_simps includes_str_contains [symmetric]
        includes_str_samples renderEtfList_def)
qed

subsection \<open>The holdings table\<close>

lemma digitChar_cases:
  assumes "d < 10"
  shows "digitChar d \<in> {0x30, 0x31, 0x32, 0x33, 0x34, 0x35, 0x36, 0x37, 0x38, 0x39}"
proof -
  from assms have "d \<in> {0, 1, 2, 3, 4, 5, 6, 7, 8, 9}"
    by auto
  then show ?thesis
    by (auto simp add: digitChar_def)
qed

lemma digitChar_facts:
  assumes "d < 10"
  shows "\<not> isWhiteSpace (digitChar d)" "digitValue (digitChar d) = d"
    "digitChar d \<noteq> 0x2D" "digitChar d \<noteq> 0x2B" "digitChar d \<noteq> 0x78" "digitChar d \<noteq> 0x58"
proof -
  from assms have "d \<in> {0, 1, 2, 3, 4, 5, 6, 7, 8, 9}"
    by auto
  then show "\<not> isWhiteSpace (digitChar d)" "digitValue (digitChar d) = d"
    "digitChar d \<noteq> 0x2D" "digitChar d \<noteq> 0x2B" "digitChar d \<noteq> 0x78" "digitChar d \<noteq> 0x58"
    by (auto simp add: digitChar_def isWhiteSpace_def digitValue_def)
qed

lemma decimal_digits: "c \<in> set (decimal n) \<Longrightarrow> \<exists>d<10. c = digitChar d"
proof (induction n rule: decimal.induct)
  case (1 n)
  show ?case
  proof (cases "n < 10")
    case True
    with "1.prems" show ?thesis
      by (auto simp add: decimal.simps [of n])
  next
    case False
    with "1.prems" have "c \<in> set (decimal (n div 10)) \<or> c = digitChar (n mod 10)"
      by (auto simp add: decimal.simps [of n])
    then show ?thesis
    proof
      assume "c \<in> set (decimal (n div 10))"
      with False "1.IH" show ?thesis by blast
    next
      assume "c = digitChar (n mod 10)"
      moreover have "n mod 10 < 10" by simp
      ultimately show ?thesis by blast
    qed
  qed
qed

lemma decimal_not_Nil: "decimal n \<noteq> []"
  by (subst decimal.simps) simp

lemma decimal_value:
  "foldl (\<lambda>a c. a * 10 + int (digitValue c)) 0 (decimal n) = int n"
proof (induction n rule: decimal.induct)
  case (1 n)
  show ?case
  proof (cases "n < 10")
    case True
    then show ?thesis
      by (simp add: decimal.simps [of n] digitChar_facts)
  next
    case False
    have "n mod 10 < 10" by simp
    moreover have "int (n div 10) * 10 + int (n mod 10) = int n"
      by (simp add: zdiv_int zmod_int)
    ultimately show ?thesis
      using False "1.IH" by (simp add: decimal.simps [of n] digitChar_facts)
  qed
qed

lemma js_literals:
  "js ''-'' = [0x2D]" "js ''+'' = [0x2B]" "js ''0x'' = [0x30, 0x78]" "js ''0X'' = [0x30, 0x58]"
  by (simp_all add: js_def)

lemma decimal_Cons: "\<exists>d cs. d < 10 \<and> decimal n = digitChar d # cs"
proof -
  obtain c cs where D: "decimal n = c # cs"
    using decimal_not_Nil [of n] by (cases "decimal n") auto
  then have "c \<in> set (decimal n)"
    by simp
  then obtain d where "d < 10" "c = digitChar d"
    using decimal_digits by blast
  with D show ?thesis
    by blast
qed

lemma decimal_no_prefix:
  "dropWhile isWhiteSpace (decimal n) = decimal n"
  "take (Suc 0) (decimal n) \<noteq> js ''-''"
  "take (Suc 0) (decimal n) \<noteq> js ''+''"
proof -
  obtain d cs where d: "d < 10" "decimal n = digitChar d # cs"
    using decimal_Cons by blast
  show "dropWhile isWhiteSpace (decimal n) = decimal n"
    using d by (simp add: digitChar_facts)
  show "take (Suc 0) (decimal n) \<noteq> js ''-''"
    using d digitChar_facts(3) [of d] by (simp add: js_literals)
  show "take (Suc 0) (decimal n) \<noteq> js ''+''"
    using d digitChar_facts(4) [of d] by (simp add: js_literals)
qed

lemma decimal_no_hex:
  "take 2 (decimal n) \<noteq> js ''0x''"
  "take 2 (decimal n) \<noteq> js ''0X''"
proof -
  obtain d cs where d: "d < 10" "decimal n = digitChar d # cs"
    using decimal_Cons by blast
  have second: "c \<noteq> 0x78 \<and> c \<noteq> 0x58" if "cs = c # cs'" for c cs'
  proof -
    from that d have "c \<in> set (decimal n)"
      by simp
    then obtain e where "e < 10" "c = digitChar e"
      using decimal_digits by blast
    then show ?thesis
      using digitChar_facts(5,6) [of e] by simp
  qed
  show "take 2 (decimal n) \<noteq> js ''0x''"
  proof (cases cs)
    case Nil
    with d show ?thesis by (simp add: js_literals)
  next
    case (Cons c cs')
    with d second [OF Cons] show ?thesis
      by (simp add: js_literals numeral_2_eq_2)
  qed
  show "take 2 (decimal n) \<noteq> js ''0X''"
  proof (cases cs)
    case Nil
    with d show ?thesis by (simp add: js_literals)
  next
    case (Cons c cs')
    with d second [OF Cons] show ?thesis
      by (simp add: js_literals numeral_2_eq_2)
  qed
qed

lemma decimal_all_digits: "takeWhile (\<lambda>c. digitValue c < 10) (decimal n) = decimal n"
proof (rule takeWhile_eq_all_conv [THEN iffD2], rule ballI)
  fix x assume "x \<in> set (decimal n)"
  then obtain e where "e < 10" "x = digitChar e"
    using decimal_digits by blast
  then show "digitValue x < 10"
    by (simp add: digitChar_facts)
qed

lemma parseInt_decimal: "parseInt (decimal n) = Some (int n)"
  unfolding parseInt_def Let_def
  by (simp add: decimal_no_prefix decimal_no_hex decimal_all_digits decimal_not_Nil decimal_value)

lemma array_slice_take:
  "array_slice xs 0 (Some (int n)) = take n xs"
  by (simp add: array_slice_def Let_def min_def)

lemma decimal_not_all: "decimal n \<noteq> js ''all''"
proof
  assume a: "decimal n = js ''all''"
  have "(0x61 :: 16 word) \<in> set (js ''all'')"
    by (simp add: js_def)
  with a obtain d where "d < 10" "(0x61 :: 16 word) = digitChar d"
    using decimal_digits [of "0x61" n] by auto
  then show False
    using digitChar_cases [of d] by auto
qed

lemma enumerate_map_nth:
  "map (\<lambda>(i, x). f x i) (enumerate 0 xs) = map (\<lambda>i. f (xs ! i) i) [0 ..< length xs]"
  by (rule nth_equalityI) (simp_all add: nth_enumerate_eq)

lemma firstCell_holdingsRow:
  "i + 1 < 10 ^ 21 \<Longrightarrow> firstCell (holdingsRow w item i) = decimal (i + 1)"
proof -
  assume a: "i + 1 < 10 ^ 21"
  then have "int (i + 1) < int (10 ^ 21)"
    by (simp only: of_nat_less_iff)
  then have "int i + 1 < 10 ^ 21"
    by (simp only: of_nat_add of_nat_1 of_nat_power of_nat_numeral)
  moreover have "nat (int i + 1) = i + 1"
    by linarith
  moreover have "\<bar>int i + 1\<bar> = int i + 1" "\<not> int i + 1 < 0"
    by linarith+
  ultimately show ?thesis
    unfolding holdingsRow_def intToString_def Let_def firstCell.simps list.sel snd_conv
    by (simp only: if_True if_False append_Nil)
qed

text \<open>
  \<^bold>\<open>C4.\<close> Let the value of the count selector be \<open>all\<close> or the decimal numeral of
  \<open>N\<close>. The holdings renderer shows the whole comparison array when the value is \<open>all\<close>
  and otherwise its first \<open>N\<close> entries, in the order of the array: row \<open>i\<close> (from 0) of
  the table is the row of entry \<open>i\<close>, and its first cell reads \<open>i + 1\<close> in decimal. (When
  there is nothing to show, the table holds the placeholder row.)
\<close>

theorem holdings_rows_slice:
  assumes "holdingsCountValue s = js ''all'' \<or> holdingsCountValue s = decimal N"
  shows
   "(let shown = (if holdingsCountValue s = js ''all'' then holdingsData s
                  else take N (holdingsData s))
     in holdingsTableRows (renderHoldingsTable w s) =
          (if shown = [] then [NoHoldingsRow 7 TEXT_NO_HOLDINGS]
           else map (\<lambda>i. holdingsRow w (holdingsData s ! i) i) [0 ..< length shown]) \<and>
        (\<forall>i < length shown. i + 1 < 10 ^ 21 \<longrightarrow>
           firstCell (holdingsRow w (holdingsData s ! i) i) = decimal (i + 1)))"
proof (cases "holdingsCountValue s = js ''all''")
  case True
  then show ?thesis
    by (simp add: renderHoldingsTable_eq Let_def enumerate_map_nth firstCell_holdingsRow)
next
  case False
  with assms have v: "holdingsCountValue s = decimal N"
    by blast
  have "map (\<lambda>i. holdingsRow w (take N (holdingsData s) ! i) i)
          [0 ..< length (take N (holdingsData s))] =
        map (\<lambda>i. holdingsRow w (holdingsData s ! i) i) [0 ..< length (take N (holdingsData s))]"
    by (rule map_cong) simp_all
  with v show ?thesis
    by (simp add: renderHoldingsTable_eq Let_def decimal_not_all parseInt_decimal
        array_slice_take enumerate_map_nth firstCell_holdingsRow)
qed

lemma eightHoldings_length: "length eightHoldings = 8"
  by (simp add: eightHoldings_def)

lemma decimal_upto_8:
  "map (\<lambda>i. decimal (i + 1)) [0 ..< 5] = [js ''1'', js ''2'', js ''3'', js ''4'', js ''5'']"
  "map (\<lambda>i. decimal (i + 1)) [0 ..< 8] =
     [js ''1'', js ''2'', js ''3'', js ''4'', js ''5'', js ''6'', js ''7'', js ''8'']"
  "decimal 5 = js ''5''"
  by code_simp+

text \<open>
  With the selector at \<open>5\<close> and eight entries, five rows are rendered and their first
  cells read 1 to 5; with \<open>all\<close>, eight rows, reading 1 to 8.
\<close>

theorem holdings_rows_five_of_eight:
  "length eightHoldings = 8 \<and>
   map firstCell (holdingsTableRows (renderHoldingsTable online
      (blank\<lparr>holdingsData := eightHoldings, holdingsCountValue := js ''5''\<rparr>))) =
     [js ''1'', js ''2'', js ''3'', js ''4'', js ''5''] \<and>
   map firstCell (holdingsTableRows (renderHoldingsTable online
      (blank\<lparr>holdingsData := eightHoldings, holdingsCountValue := js ''all''\<rparr>))) =
     [js ''1'', js ''2'', js ''3'', js ''4'', js ''5'', js ''6'', js ''7'', js ''8'']"
proof -
  let ?five = "blank\<lparr>holdingsData := eightHoldings, holdingsCountValue := js ''5''\<rparr>"
  let ?all = "blank\<lparr>holdingsData := eightHoldings, holdingsCountValue := js ''all''\<rparr>"
  have small: "i + 1 < 10 ^ 21" if "i < 8" for i :: nat
    using that by simp
  have v5: "holdingsCountValue ?five = js ''all'' \<or> holdingsCountValue ?five = decimal 5"
    by (simp add: decimal_upto_8)
  have vall: "holdingsCountValue ?all = js ''all'' \<or> holdingsCountValue ?all = decimal 0"
    by simp
  from holdings_rows_slice [OF v5, where w = online]
  have rows5: "holdingsTableRows (renderHoldingsTable online ?five) =
      map (\<lambda>i. holdingsRow online (eightHoldings ! i) i) [0 ..< 5]"
    and cells5: "\<forall>i<5. i + 1 < 10 ^ 21 \<longrightarrow>
      firstCell (holdingsRow online (eightHoldings ! i) i) = decimal (i + 1)"
    by (simp_all add: Let_def eightHoldings_length)
      (simp add: eightHoldings_def)
  from holdings_rows_slice [OF vall, where w = online]
  have rows8: "holdingsTableRows (renderHoldingsTable online ?all) =
      map (\<lambda>i. holdingsRow online (eightHoldings ! i) i) [0 ..< 8]"
    and cells8: "\<forall>i<8. i + 1 < 10 ^ 21 \<longrightarrow>
      firstCell (holdingsRow online (eightHoldings ! i) i) = decimal (i + 1)"
    by (simp_all add: Let_def eightHoldings_length)
      (simp add: eightHoldings_def)
  have "map firstCell (holdingsTableRows (renderHoldingsTable online ?five)) =
      map (\<lambda>i. decimal (i + 1)) [0 ..< 5]"
    unfolding rows5 map_map using cells5 small by (intro map_cong refl) simp
  moreover have "map firstCell (holdingsTableRows (renderHoldingsTable online ?all)) =
      map (\<lambda>i. decimal (i + 1)) [0 ..< 8]"
    unfolding rows8 map_map using cells8 small by (intro map_cong refl) simp
  ultimately show ?thesis
    by (simp only: decimal_upto_8 eightHoldings_length simp_thms)
qed

subsection \<open>The chart instances\<close>

lemma live_append: "live (es @ es') = foldl chartsAfter (live es) es'"
  by (simp add: live_def)

lemma live_Nil [simp]: "live [] = {}"
  by (simp add: live_def)

lemma calm_append: "calm C (es @ es') = (calm C es \<and> calm (foldl chartsAfter C es) es')"
  by (induction es arbitrary: C) auto

lemma foldl_live: "foldl chartsAfter {} es = live es"
  by (simp add: live_def)

lemma card_sub_option: "A \<subseteq> set_option x \<Longrightarrow> card A \<le> Suc 0"
proof -
  assume a: "A \<subseteq> set_option x"
  have "finite (set_option x)" "card (set_option x) \<le> Suc 0"
    by (cases x; simp)+
  with a show ?thesis
    by (meson card_mono le_trans)
qed

lemma card_sub_single: "A \<subseteq> {c} \<Longrightarrow> card A \<le> Suc 0"
  using card_sub_option [of A "Some c"] by simp

lemma diff_sub_option: "A \<subseteq> set_option (Some c) \<Longrightarrow> A - {c} = {}"
  by auto

lemmas inv_simps = chart_inv_def calm_append live_append foldl_live card_sub_option card_sub_single diff_sub_option

lemma inv_fetchEtfList: "chart_inv s \<Longrightarrow> chart_inv (fetchEtfList w s)"
  by (auto simp add: inv_simps fetchEtfList_def fetchEtfList_try_def handler_defs render_defs
      split: reply.splits option.splits)

lemma inv_loadThemes: "chart_inv s \<Longrightarrow> chart_inv (loadThemes w s)"
  by (auto simp add: inv_simps loadThemes_def loadThemes_try_def handler_defs render_defs
      split: reply.splits option.splits)

lemma inv_loadStatsData: "chart_inv s \<Longrightarrow> chart_inv (loadStatsData w s)"
  by (auto simp add: inv_simps loadStatsData_def loadStatsData_try_def handler_defs render_defs
      split: reply.splits option.splits)

lemma inv_fetchEtfDetails: "chart_inv s \<Longrightarrow> chart_inv (fetchEtfDetails w t s)"
  by (auto simp add: inv_simps fetchEtfDetails_def fetchEtfDetails_try_def handler_defs render_defs
      split: reply.splits option.splits)

lemma inv_renderWeightChart: "chart_inv s \<Longrightarrow> chart_inv (renderWeightChart n h s)"
  by (auto simp add: inv_simps render_defs Let_def split: option.splits)

lemma inv_fetchStockHistory: "chart_inv s \<Longrightarrow> chart_inv (fetchStockHistory w e st sn s)"
  by (auto simp add: inv_simps fetchStockHistory_def fetchStockHistory_try_def handler_defs render_defs
      split: reply.splits option.splits)

lemma inv_alert [simp]: "chart_inv (alert m s) = chart_inv s"
  by (auto simp add: inv_simps alert_def)

lemma inv_frame:
  "chart_inv (showLoading x s) = chart_inv s"
  "chart_inv (hideLoading s) = chart_inv s"
  "chart_inv (fetch m u s) = chart_inv s"
  "chart_inv (console_error m s) = chart_inv s"
  "chart_inv (renderEtfList etfs s) = chart_inv s"
  "chart_inv (renderHoldingsTable w s) = chart_inv s"
  by (auto simp add: inv_simps handler_defs render_defs)

lemma inv_initializeApp: "chart_inv s \<Longrightarrow> chart_inv (initializeApp w s)"
  by (auto simp add: initializeApp_def initializeApp_try_def try_catch_finally_def try_catch_def
      Let_def inv_frame inv_fetchEtfList inv_loadThemes split: reply.splits option.splits)

lemma inv_switchView: "chart_inv s \<Longrightarrow> chart_inv (switchView w v s)"
  by (auto simp add: switchView_def Let_def intro!: inv_loadStatsData) (auto simp add: chart_inv_def)

lemma inv_refresh: "chart_inv s \<Longrightarrow> chart_inv (refreshBtn_click w s)"
  by (auto simp add: refreshBtn_click_def refreshBtn_click_try_def try_catch_finally_def try_catch_def
      inv_frame inv_fetchEtfDetails inv_loadStatsData Let_def split: reply.splits option.splits)

lemma inv_field_updates:
  "chart_inv (s\<lparr>etfListItems := a\<rparr>) = chart_inv s"
  "chart_inv (s\<lparr>holdingsCountValue := b\<rparr>) = chart_inv s"
  "chart_inv (s\<lparr>statsTypeValue := b\<rparr>) = chart_inv s"
  "chart_inv (s\<lparr>themeSelectValue := b\<rparr>) = chart_inv s"
  "chart_inv (s\<lparr>themeSelectDisabled := c\<rparr>) = chart_inv s"
  by (simp_all add: chart_inv_def)

lemma inv_exportCsv: "chart_inv s \<Longrightarrow> chart_inv (exportCsvBtn_click s)"
  by (auto simp add: exportCsvBtn_click_def alert_def inv_simps split: option.splits)

lemma inv_dispatch: "chart_inv s \<Longrightarrow> chart_inv (dispatch w e s)"
proof (cases e)
  case (SearchInput v)
  then show "chart_inv s \<Longrightarrow> ?thesis"
    by (simp add: etfSearch_input_def Let_def inv_frame)
next
  case (EtfListClick i)
  then show "chart_inv s \<Longrightarrow> ?thesis"
    by (auto simp add: etfList_click_def Let_def inv_field_updates
        intro!: inv_fetchEtfDetails inv_switchView split: option.splits)
next
  case (HoldingsCountChange v)
  then show "chart_inv s \<Longrightarrow> ?thesis"
    by (simp add: inv_frame inv_field_updates)
next
  case (HoldingsRowClick i)
  then show "chart_inv s \<Longrightarrow> ?thesis"
    by (auto simp add: holdingsTableBody_click_def intro!: inv_fetchStockHistory
        split: holdings_row.splits option.splits)
next
  case RefreshClick
  then show "chart_inv s \<Longrightarrow> ?thesis"
    by (simp add: inv_refresh)
next
  case ExportCsvClick
  then show "chart_inv s \<Longrightarrow> ?thesis"
    by (simp add: inv_exportCsv)
next
  case ViewToggleClick
  then show "chart_inv s \<Longrightarrow> ?thesis"
    by (simp add: viewToggle_click_def Let_def inv_switchView)
next
  case (StatsTypeChange v)
  then show "chart_inv s \<Longrightarrow> ?thesis"
    by (auto simp add: statsTypeSelect_change_def Let_def inv_field_updates
        intro!: inv_loadStatsData)
next
  case (ThemeChange v)
  then show "chart_inv s \<Longrightarrow> ?thesis"
    by (auto simp add: themeSelect_change_def inv_field_updates intro!: inv_loadStatsData)
qed

lemma reachable_chart_inv: "reachable s \<Longrightarrow> chart_inv s"
proof (induction rule: reachable.induct)
  case (start s w)
  then have "chart_inv s"
    by (simp add: initial_def chart_inv_def)
  then show ?case
    by (rule inv_initializeApp)
next
  case (step s w e)
  then show ?case
    by (simp add: inv_dispatch)
qed

lemma calm_take:
  "calm C es \<Longrightarrow> card C \<le> 1 \<Longrightarrow> card (foldl chartsAfter C (take n es)) \<le> 1"
proof (induction es arbitrary: C n)
  case Nil
  then show ?case by simp
next
  case (Cons e es)
  show ?case
  proof (cases n)
    case 0
    with Cons.prems show ?thesis by simp
  next
    case (Suc m)
    with Cons show ?thesis by simp
  qed
qed

lemma fetchEtfDetails_ok_state:
  assumes "fetchComparison w (js ''/api/etf/'' @ t @ js ''/comparison'') = Response True (Some d)"
    and "chart_inv s"
  shows "\<exists>s'. fetchEtfDetails w t s = hideLoading (renderHoldingsTable w s') \<and>
           chartContainerHidden s' \<and> live (effects s') = {} \<and> holdingsData s' = comparison d \<and>
           effects s' =
             effects s @ [Fetch (js ''GET'') (js ''/api/etf/'' @ t @ js ''/comparison''), ChartPanelHide] @
             (case weightChart s of Some c \<Rightarrow> [ChartDestroyed c] | None \<Rightarrow> [])"
proof (cases "weightChart s")
  case None
  with assms show ?thesis
    unfolding fetchEtfDetails_def fetchEtfDetails_try_def try_catch_finally_def try_catch_def
    apply (simp add: Let_def)
    apply (intro exI conjI)
        apply (rule refl)
       apply (simp_all add: inv_simps handler_defs render_defs)
    done
next
  case (Some c)
  with assms show ?thesis
    unfolding fetchEtfDetails_def fetchEtfDetails_try_def try_catch_finally_def try_catch_def
    apply (simp add: Let_def)
    apply (intro exI conjI)
        apply (rule refl)
       apply (simp_all add: inv_simps handler_defs render_defs)
    done
qed

lemma fetchEtfDetails_ok_before_render:
  assumes "fetchComparison w (js ''/api/etf/'' @ t @ js ''/comparison'') = Response True (Some d)"
    and "chart_inv s"
  shows "\<exists>s' tw. fetchEtfDetails w t s = hideLoading (renderHoldingsTable w s') \<and>
           chartContainerHidden s' \<and> live (effects s') = {} \<and> holdingsData s' = comparison d \<and>
           effects s' =
             effects s @ [Fetch (js ''GET'') (js ''/api/etf/'' @ t @ js ''/comparison''), ChartPanelHide] @
             (case weightChart s of Some c \<Rightarrow> [ChartDestroyed c] | None \<Rightarrow> []) \<and>
           effects (fetchEtfDetails w t s) = effects s' @ tw \<and> tw \<noteq> [] \<and> list_all tableWrite tw"
proof -
  obtain s' where s': "fetchEtfDetails w t s = hideLoading (renderHoldingsTable w s')"
    "chartContainerHidden s'" "live (effects s') = {}" "holdingsData s' = comparison d"
    "effects s' =
       effects s @ [Fetch (js ''GET'') (js ''/api/etf/'' @ t @ js ''/comparison''), ChartPanelHide] @
       (case weightChart s of Some c \<Rightarrow> [ChartDestroyed c] | None \<Rightarrow> [])"
    using fetchEtfDetails_ok_state [OF assms] by blast
  obtain tw where tw: "effects (renderHoldingsTable w s') = effects s' @ tw" "tw \<noteq> []"
    "list_all tableWrite tw"
    using renderHoldingsTable_writes [of w s'] by blast
  have "effects (fetchEtfDetails w t s) = effects s' @ tw"
    by (simp add: s'(1) tw(1) hideLoading_def)
  with s' tw(2,3) show ?thesis
    by blast
qed

lemma etfList_click_ok:
  assumes "i < length (etfListItems s)" "liTicker (etfListItems s ! i) = Some t" "truthy t"
  shows "\<exists>s1. dispatch w (EtfListClick i) s = fetchEtfDetails w t s1 \<and>
           weightChart s1 = weightChart s \<and> effects s1 = effects s"
  using assms
  by (auto simp add: etfList_click_def Let_def switchView_def)

lemma holdingsTableBody_click_ok:
  assumes "j < length (holdingsTableRows s)" "holdingsTableRows s ! j = HoldingRow st sn cells"
    "truthy st" "currentEtfData s = Some d"
    "fetchHistory w (js ''/api/etf/'' @ etf_ticker d @ js ''/stock/'' @ st @ js ''/history'') =
       Response True (Some h)"
  shows "effects (holdingsTableBody_click w j s) =
      effects s @ [Fetch (js ''GET'')
         (js ''/api/etf/'' @ etf_ticker d @ js ''/stock/'' @ st @ js ''/history''), ChartPanelShow] @
      (case weightChart s of Some c \<Rightarrow> [ChartDestroyed c] | None \<Rightarrow> []) @
      [ChartConstructed (length (charts s))]"
    "weightChart (holdingsTableBody_click w j s) = Some (length (charts s))"
    "\<not> chartContainerHidden (holdingsTableBody_click w j s)"
  using assms
  by (simp_all add: holdingsTableBody_click_def fetchStockHistory_def fetchStockHistory_try_def
      handler_defs render_defs split: option.splits)

text \<open>
  \<^bold>\<open>C3.\<close> In every reachable state: at no moment of the run so far were two chart
  instances alive, and an instance alive now is the one \<open>weightChart\<close> refers to. A
  click on an ETF of the list whose details arrive does, in this order and nothing
  else: the request, the hiding of the chart panel, the destruction of the chart
  instance \<open>weightChart\<close> refers to, if there is one, and then the writes to the body
  of the holdings table, of which there is at least one. So the table is rendered on a
  state in which the panel is hidden and no chart instance is alive, and no write to
  the table comes before the hiding or the destruction. A click on a holding whose
  history arrives shows the panel, destroys the existing instance, if there is one, and
  only then constructs the new one, which is then the only one alive.
\<close>

theorem chart_lifecycle:
  assumes "reachable s"
  shows
   "(\<forall>n \<le> length (effects s). card (live (take n (effects s))) \<le> 1) \<and>
    live (effects s) \<subseteq> set_option (weightChart s) \<and>
    (i < length (etfListItems s) \<and> liTicker (etfListItems s ! i) = Some t \<and> truthy t \<and>
     fetchComparison w (js ''/api/etf/'' @ t @ js ''/comparison'') = Response True (Some d) \<longrightarrow>
       (\<exists>s' tw. dispatch w (EtfListClick i) s = hideLoading (renderHoldingsTable w s') \<and>
             chartContainerHidden s' \<and> live (effects s') = {} \<and>
             holdingsData s' = comparison d \<and>
             effects s' =
               effects s @
               [Fetch (js ''GET'') (js ''/api/etf/'' @ t @ js ''/comparison''), ChartPanelHide] @
               (case weightChart s of Some c \<Rightarrow> [ChartDestroyed c] | None \<Rightarrow> []) \<and>
             effects (dispatch w (EtfListClick i) s) = effects s' @ tw \<and>
             tw \<noteq> [] \<and> list_all tableWrite tw)) \<and>
    (j < length (holdingsTableRows s) \<and> holdingsTableRows s ! j = HoldingRow st sn cells \<and>
     truthy st \<and> currentEtfData s = Some e \<and>
     fetchHistory w (js ''/api/etf/'' @ etf_ticker e @ js ''/stock/'' @ st @ js ''/history'') =
       Response True (Some h) \<longrightarrow>
       effects (dispatch w (HoldingsRowClick j) s) =
         effects s @
         [Fetch (js ''GET'') (js ''/api/etf/'' @ etf_ticker e @ js ''/stock/'' @ st @ js ''/history''),
          ChartPanelShow] @
         (case weightChart s of Some c \<Rightarrow> [ChartDestroyed c] | None \<Rightarrow> []) @
         [ChartConstructed (length (charts s))] \<and>
       weightChart (dispatch w (HoldingsRowClick j) s) = Some (length (charts s)) \<and>
       live (effects (dispatch w (HoldingsRowClick j) s)) = {length (charts s)} \<and>
       \<not> chartContainerHidden (dispatch w (HoldingsRowClick j) s))"
proof -
  have inv: "chart_inv s"
    using assms by (rule reachable_chart_inv)
  have A: "\<forall>n \<le> length (effects s). card (live (take n (effects s))) \<le> 1"
    using inv calm_take [of "{}" "effects s"] by (simp add: chart_inv_def live_def)
  have B: "live (effects s) \<subseteq> set_option (weightChart s)"
    using inv by (simp add: chart_inv_def)
  have C: "\<exists>s' tw. dispatch w (EtfListClick i) s = hideLoading (renderHoldingsTable w s') \<and>
             chartContainerHidden s' \<and> live (effects s') = {} \<and>
             holdingsData s' = comparison d \<and>
             effects s' =
               effects s @
               [Fetch (js ''GET'') (js ''/api/etf/'' @ t @ js ''/comparison''), ChartPanelHide] @
               (case weightChart s of Some c \<Rightarrow> [ChartDestroyed c] | None \<Rightarrow> []) \<and>
             effects (dispatch w (EtfListClick i) s) = effects s' @ tw \<and>
             tw \<noteq> [] \<and> list_all tableWrite tw"
    if c: "i < length (etfListItems s)" "liTicker (etfListItems s ! i) = Some t" "truthy t"
      "fetchComparison w (js ''/api/etf/'' @ t @ js ''/comparison'') = Response True (Some d)"
  proof -
    obtain s1 where s1: "dispatch w (EtfListClick i) s = fetchEtfDetails w t s1"
      "weightChart s1 = weightChart s" "effects s1 = effects s"
      using etfList_click_ok [OF c(1,2,3)] by blast
    then have "chart_inv s1"
      using inv by (simp add: chart_inv_def)
    from fetchEtfDetails_ok_before_render [OF c(4) this] show ?thesis
      by (simp only: s1)
  qed
  have D: "effects (dispatch w (HoldingsRowClick j) s) =
         effects s @
         [Fetch (js ''GET'') (js ''/api/etf/'' @ etf_ticker e @ js ''/stock/'' @ st @ js ''/history''),
          ChartPanelShow] @
         (case weightChart s of Some c \<Rightarrow> [ChartDestroyed c] | None \<Rightarrow> []) @
         [ChartConstructed (length (charts s))] \<and>
       weightChart (dispatch w (HoldingsRowClick j) s) = Some (length (charts s)) \<and>
       live (effects (dispatch w (HoldingsRowClick j) s)) = {length (charts s)} \<and>
       \<not> chartContainerHidden (dispatch w (HoldingsRowClick j) s)"
    if c: "j < length (holdingsTableRows s)" "holdingsTableRows s ! j = HoldingRow st sn cells"
      "truthy st" "currentEtfData s = Some e"
      "fetchHistory w (js ''/api/etf/'' @ etf_ticker e @ js ''/stock/'' @ st @ js ''/history'') =
         Response True (Some h)"
  proof -
    note ok = holdingsTableBody_click_ok [OF c]
    have "live (effects (dispatch w (HoldingsRowClick j) s)) = {length (charts s)}"
      using B by (auto simp add: ok(1) live_append split: option.splits)
    with ok show ?thesis
      by simp
  qed
  show ?thesis
    using A B C D by blast
qed

lemma holdingsTableBody_click_frame:
  "etfListItems (holdingsTableBody_click w j s) = etfListItems s"
  by (simp add: holdingsTableBody_click_def fetchStockHistory_def fetchStockHistory_try_def
      handler_defs render_defs split: holdings_row.splits reply.splits option.splits)

lemma reachable_samples: "reachable detailLoaded" "reachable chartShown"
proof -
  have "initial blank"
    by (simp add: initial_def blank_def)
  then have "reachable (initializeApp online blank)"
    by (rule reachable.start)
  then show "reachable detailLoaded"
    unfolding detailLoaded_def by (rule reachable.step)
  then show "reachable chartShown"
    unfolding chartShown_def by (rule reachable.step)
qed

text \<open>
  After start-up and a click on the first ETF, a click on its first holding constructs
  the first chart instance, which is then the one alive; a click on the ETF again
  makes the request, hides the panel, destroys that instance and only then writes the
  holdings table.
\<close>

theorem chart_lifecycle_after_detail:
  "reachable detailLoaded \<and>
   card (live (effects detailLoaded)) \<le> 1 \<and>
   weightChart (dispatch online (HoldingsRowClick 0) detailLoaded) = Some (length (charts detailLoaded)) \<and>
   live (effects (dispatch online (HoldingsRowClick 0) detailLoaded)) = {length (charts detailLoaded)} \<and>
   reachable chartShown \<and>
   (\<exists>s' tw. dispatch online (EtfListClick 0) chartShown = hideLoading (renderHoldingsTable online s') \<and>
         chartContainerHidden s' \<and> live (effects s') = {} \<and>
         effects s' =
           effects chartShown @
           [Fetch (js ''GET'') (js ''/api/etf/'' @ js ''069500'' @ js ''/comparison''), ChartPanelHide,
            ChartDestroyed (length (charts detailLoaded))] \<and>
         effects (dispatch online (EtfListClick 0) chartShown) = effects s' @ tw \<and>
         tw \<noteq> [] \<and> list_all tableWrite tw)"
proof -
  let ?url = "js ''/api/etf/'' @ etf_ticker kodex @ js ''/stock/'' @ js ''005930'' @ js ''/history''"
  obtain cells where row:
    "holdingsTableRows detailLoaded ! 0 = HoldingRow (js ''005930'') (js ''Samsung'') cells"
    by (simp add: detailLoaded_facts holdingsRow_def kodex_def)
  have len: "0 < length (holdingsTableRows detailLoaded)"
    by (simp add: detailLoaded_facts)
  have h: "fetchHistory online ?url =
      Response True (Some \<lparr>history = [\<lparr>date = js ''2024-01-03'', weight = 31, amount = 150000000\<rparr>]\<rparr>)"
    by (simp add: online_def)
  have tr: "truthy (js ''005930'')" "truthy (js ''069500'')"
    by (simp_all add: truthy_def)
  note d = chart_lifecycle [OF reachable_samples(1), where w = online and j = 0
      and st = "js ''005930''" and sn = "js ''Samsung''" and cells = cells and e = kodex
      and h = "\<lparr>history = [\<lparr>date = js ''2024-01-03'', weight = 31, amount = 150000000\<rparr>]\<rparr>"]
  from d have 1: "card (live (take (length (effects detailLoaded)) (effects detailLoaded))) \<le> 1"
    by blast
  from d len row tr h detailLoaded_facts(1)
  have 2: "weightChart (dispatch online (HoldingsRowClick 0) detailLoaded) =
      Some (length (charts detailLoaded))"
    "live (effects (dispatch online (HoldingsRowClick 0) detailLoaded)) = {length (charts detailLoaded)}"
    by blast+
  have items: "etfListItems chartShown =
      [\<lparr>liText = js ''KODEX 200'', liTicker = Some (js ''069500''), liActive = True\<rparr>]"
    by (simp add: chartShown_def holdingsTableBody_click_frame detailLoaded_eq fetchEtfDetails_frame)
  have c: "fetchComparison online (js ''/api/etf/'' @ js ''069500'' @ js ''/comparison'') =
      Response True (Some kodex)"
    by (simp add: online_def)
  have wc: "weightChart chartShown = Some (length (charts detailLoaded))"
    using 2(1) by (simp only: chartShown_def)
  from chart_lifecycle [OF reachable_samples(2), where w = online and i = 0 and t = "js ''069500''"
      and d = kodex] items tr c
  have "\<exists>s' tw. dispatch online (EtfListClick 0) chartShown =
      hideLoading (renderHoldingsTable online s') \<and> chartContainerHidden s' \<and> live (effects s') = {} \<and>
      effects s' =
        effects chartShown @
        [Fetch (js ''GET'') (js ''/api/etf/'' @ js ''069500'' @ js ''/comparison''), ChartPanelHide] @
        (case weightChart chartShown of Some c \<Rightarrow> [ChartDestroyed c] | None \<Rightarrow> []) \<and>
      effects (dispatch online (EtfListClick 0) chartShown) = effects s' @ tw \<and>
      tw \<noteq> [] \<and> list_all tableWrite tw"
    by (simp only: list.size nth_Cons_0 list_item.simps) blast
  then have 3: "\<exists>s' tw. dispatch online (EtfListClick 0) chartShown =
      hideLoading (renderHoldingsTable online s') \<and> chartContainerHidden s' \<and> live (effects s') = {} \<and>
      effects s' =
        effects chartShown @
        [Fetch (js ''GET'') (js ''/api/etf/'' @ js ''069500'' @ js ''/comparison''), ChartPanelHide,
         ChartDestroyed (length (charts detailLoaded))] \<and>
      effects (dispatch online (EtfListClick 0) chartShown) = effects s' @ tw \<and>
      tw \<noteq> [] \<and> list_all tableWrite tw"
    by (simp only: wc option.case append_Cons append_Nil)
  show ?thesis
    using 1 2 3 reachable_samples by simp
qed

subsection \<open>The amount formatter\<close>

lemma pow2_power_int: "pow2 k = power_int 2 k"
  by (simp add: pow2_def power_int_def power_one_over)

lemma pow2_pos [simp]: "0 < pow2 k"
  by (simp add: pow2_power_int)

lemma pow2_nonzero [simp]: "pow2 k \<noteq> 0"
  using pow2_pos [of k] by (rule less_imp_neq [symmetric])

lemma pow2_add: "pow2 (i + j) = pow2 i * pow2 j"
  by (simp add: pow2_power_int power_int_add)

lemma pow2_mono: "i \<le> j \<Longrightarrow> pow2 i \<le> pow2 j"
  by (simp add: pow2_power_int power_int_increasing)

lemma pow2_less_imp: "pow2 i < pow2 j \<Longrightarrow> i < j"
  using pow2_mono [of j i] by (cases "i < j") auto

lemma pow2_nat: "0 \<le> k \<Longrightarrow> pow2 k = of_int (2 ^ nat k)"
  by (simp add: pow2_def)

lemma pow2_0 [simp]: "pow2 0 = 1"
  by (simp add: pow2_def)

lemma pow2_numeral: "pow2 53 = 2 ^ 53" "pow2 52 = 2 ^ 52" "pow2 1 = 2" "pow2 (- 1) = 1 / 2"
  by (simp_all add: pow2_def)

lemma bitlen_pow2_bounds:
  assumes "0 < n"
  shows "pow2 (bitlen n - 1) \<le> of_int n" "of_int n < pow2 (bitlen n)"
proof -
  from bitlen_bounds [OF assms]
  have b: "2 ^ nat (bitlen n - 1) \<le> n" "n < 2 ^ nat (bitlen n)"
    by simp_all
  have ge1: "1 \<le> bitlen n"
    using assms by (auto simp: bitlen_alt_def)
  have "pow2 (bitlen n - 1) = of_int (2 ^ nat (bitlen n - 1))"
    using ge1 by (simp add: pow2_nat)
  also have "\<dots> \<le> of_int n"
    using b(1) by (simp only: of_int_le_iff)
  finally show "pow2 (bitlen n - 1) \<le> of_int n" .
  have "(of_int n :: rat) < of_int (2 ^ nat (bitlen n))"
    using b(2) by (simp only: of_int_less_iff)
  also have "\<dots> = pow2 (bitlen n)"
    using ge1 by (simp add: pow2_nat)
  finally show "of_int n < pow2 (bitlen n)" .
qed

lemma binade_test:
  assumes "0 < d"
  shows "(if 0 \<le> k then d * 2 ^ nat k \<le> n else d \<le> n * 2 ^ nat (- k)) =
         (pow2 k \<le> of_int n / of_int d)"
proof (cases "0 \<le> k")
  case True
  have "(d * 2 ^ nat k \<le> n) = ((of_int (d * 2 ^ nat k) :: rat) \<le> of_int n)"
    by (simp only: of_int_le_iff)
  also have "\<dots> = (pow2 k * of_int d \<le> of_int n)"
    using True by (simp add: pow2_def mult.commute)
  also have "\<dots> = (pow2 k \<le> of_int n / of_int d)"
    using assms by (simp add: pos_le_divide_eq)
  finally show ?thesis
    using True by simp
next
  case False
  have "(d \<le> n * 2 ^ nat (- k)) = ((of_int d :: rat) \<le> of_int (n * 2 ^ nat (- k)))"
    by (simp only: of_int_le_iff)
  also have "\<dots> = ((of_int d :: rat) \<le> of_int n * 2 ^ nat (- k))"
    by simp
  also have "\<dots> = (pow2 k * of_int d \<le> of_int n)"
    using False by (simp add: pow2_def field_simps)
  also have "\<dots> = (pow2 k \<le> of_int n / of_int d)"
    using assms by (simp add: pos_le_divide_eq)
  finally show ?thesis
    using False by simp
qed

lemma binade_bounds:
  assumes "0 < n" "0 < d"
  shows "pow2 (binade n d) \<le> of_int n / of_int d" "of_int n / of_int d < pow2 (binade n d + 1)"
proof -
  let ?q = "of_int n / of_int d :: rat"
  let ?k = "bitlen n - bitlen d"
  have dpos: "(0 :: rat) < of_int d" and npos: "(0 :: rat) < of_int n"
    using assms by simp_all
  have lo: "pow2 (?k - 1) < ?q"
  proof -
    have "pow2 (?k - 1) * of_int d < pow2 (?k - 1) * pow2 (bitlen d)"
      using bitlen_pow2_bounds(2) [OF assms(2)] by (simp add: mult_strict_left_mono)
    also have "\<dots> = pow2 (bitlen n - 1)"
      by (simp add: pow2_add [symmetric])
    also have "\<dots> \<le> of_int n"
      by (rule bitlen_pow2_bounds(1) [OF assms(1)])
    finally show ?thesis
      using dpos by (simp add: pos_less_divide_eq)
  qed
  have hi: "?q < pow2 (?k + 1)"
  proof -
    have "of_int n < pow2 (bitlen n)"
      by (rule bitlen_pow2_bounds(2) [OF assms(1)])
    also have "\<dots> = pow2 (?k + 1) * pow2 (bitlen d - 1)"
      by (simp add: pow2_add [symmetric])
    also have "\<dots> \<le> pow2 (?k + 1) * of_int d"
      using bitlen_pow2_bounds(1) [OF assms(2)] by (simp add: mult_left_mono)
    finally show ?thesis
      using dpos by (simp add: pos_divide_less_eq)
  qed
  have b: "binade n d = (if pow2 ?k \<le> ?q then ?k else ?k - 1)"
    unfolding binade_def Let_def binade_test [OF assms(2)] ..
  show "pow2 (binade n d) \<le> ?q"
    using lo by (simp add: b less_imp_le)
  show "?q < pow2 (binade n d + 1)"
    using hi by (simp add: b not_le)
qed

lemma rne_bounds:
  assumes "0 < d"
  shows "\<bar>of_int (rne n d) - (of_int n / of_int d :: rat)\<bar> \<le> 1 / 2" "n div d \<le> rne n d"
proof -
  let ?q = "n div d" and ?r = "n mod d"
  have dpos: "(0 :: rat) < of_int d"
    using assms by simp
  have r: "0 \<le> ?r" "?r < d"
    using assms by simp_all
  have "n = d * ?q + ?r"
    by simp
  then have "(of_int n :: rat) = of_int d * of_int ?q + of_int ?r"
    by (metis of_int_add of_int_mult)
  then have split: "(of_int n / of_int d :: rat) = of_int ?q + of_int ?r / of_int d"
    using dpos by (simp add: field_simps)
  have frac: "(2 * ?r < d) = ((of_int ?r / of_int d :: rat) < 1 / 2)"
    "(d < 2 * ?r) = (1 / 2 < (of_int ?r / of_int d :: rat))"
  proof -
    have "(2 * ?r < d) = ((of_int (2 * ?r) :: rat) < of_int d)"
      by (simp only: of_int_less_iff)
    then show "(2 * ?r < d) = ((of_int ?r / of_int d :: rat) < 1 / 2)"
      using dpos by (simp add: field_simps)
    have "(d < 2 * ?r) = ((of_int d :: rat) < of_int (2 * ?r))"
      by (simp only: of_int_less_iff)
    then show "(d < 2 * ?r) = (1 / 2 < (of_int ?r / of_int d :: rat))"
      using dpos by (simp add: field_simps)
  qed
  have f0: "(0 :: rat) \<le> of_int ?r / of_int d" "(of_int ?r / of_int d :: rat) < 1"
    using r dpos by simp_all
  show "\<bar>of_int (rne n d) - (of_int n / of_int d :: rat)\<bar> \<le> 1 / 2"
    unfolding rne_def Let_def split frac using f0
    by (auto simp add: abs_le_iff)
  show "n div d \<le> rne n d"
    by (simp add: rne_def Let_def)
qed

lemma fl_pos_props:
  assumes "0 < n" "0 < d"
  shows "\<bar>fl_pos n d - of_int n / of_int d\<bar> \<le> (of_int n / of_int d) / 2 ^ 53"
    "pow2 (binade n d) \<le> fl_pos n d"
proof -
  let ?q = "of_int n / of_int d :: rat"
  let ?E = "binade n d"
  let ?e = "?E - 52"
  define num where "num = (if 0 \<le> ?e then n else n * 2 ^ nat (- ?e))"
  define den where "den = (if 0 \<le> ?e then d * 2 ^ nat ?e else d)"
  have den: "0 < den"
    using assms by (simp add: den_def)
  have s: "(of_int num / of_int den :: rat) = ?q / pow2 ?e"
    by (simp add: num_def den_def pow2_def)
  have fl: "fl_pos n d = of_int (rne num den) * pow2 ?e"
    by (simp add: fl_pos_def Let_def num_def den_def)
  have E: "pow2 ?E \<le> ?q"
    using binade_bounds(1) [OF assms] .
  have e52: "pow2 ?E = pow2 ?e * 2 ^ 52"
    using pow2_add [of ?e 52] by (simp add: pow2_numeral)
  have "\<bar>fl_pos n d - ?q\<bar> = \<bar>of_int (rne num den) - ?q / pow2 ?e\<bar> * pow2 ?e"
  proof -
    have "fl_pos n d - ?q = (of_int (rne num den) - ?q / pow2 ?e) * pow2 ?e"
      by (simp add: fl field_simps)
    then show ?thesis
      by (simp only: abs_mult abs_of_pos [OF pow2_pos])
  qed
  also have "\<dots> \<le> (1 / 2) * pow2 ?e"
    using rne_bounds(1) [OF den, of num] by (simp add: s mult_right_mono)
  also have "\<dots> = pow2 ?E / 2 ^ 53"
    by (simp add: e52)
  also have "\<dots> \<le> ?q / 2 ^ 53"
    using E by (simp add: divide_right_mono)
  finally show "\<bar>fl_pos n d - ?q\<bar> \<le> ?q / 2 ^ 53" .
  have "(2 ^ 52 :: rat) * pow2 ?e \<le> ?q"
    using E by (simp only: e52 mult.commute)
  then have "(2 ^ 52 :: rat) \<le> ?q / pow2 ?e"
    by (simp only: pos_le_divide_eq [OF pow2_pos])
  then have "(of_int (2 ^ 52) :: rat) \<le> of_int num / of_int den"
    by (simp add: s)
  then have "2 ^ 52 \<le> \<lfloor>of_int num / of_int den :: rat\<rfloor>"
    by (simp only: le_floor_iff)
  then have "2 ^ 52 \<le> num div den"
    by (simp only: floor_divide_of_int_eq)
  with rne_bounds(2) [OF den, of num] have "2 ^ 52 \<le> rne num den"
    by linarith
  then have "(of_int (2 ^ 52) :: rat) \<le> of_int (rne num den)"
    by (simp only: of_int_le_iff)
  then have "(2 ^ 52 :: rat) * pow2 ?e \<le> of_int (rne num den) * pow2 ?e"
    by (simp add: mult_right_mono)
  then show "pow2 ?E \<le> fl_pos n d"
    by (simp add: fl e52 mult.commute)
qed

lemma fdiv_simps:
  "fdiv 0 d = 0"
  "a < 0 \<Longrightarrow> fdiv a d = - fdiv (- a) d"
  "0 < a \<Longrightarrow> fdiv a d = fl_pos a d"
  by (simp_all add: fdiv_def)

lemma fdiv_error:
  assumes "0 < a" "0 < d"
  shows "\<bar>fdiv a d - of_int a / of_int d\<bar> \<le> (of_int a / of_int d) / 2 ^ 53"
  using fl_pos_props(1) [OF assms] assms(1) by (simp add: fdiv_simps)

lemma fdiv_pos:
  assumes "0 < a" "0 < d"
  shows "0 < fdiv a d"
  using less_le_trans [OF pow2_pos fl_pos_props(2) [OF assms]] assms(1)
  by (simp add: fdiv_simps)

lemma fdiv_ge_1:
  assumes "0 < d" "d \<le> a"
  shows "1 \<le> fdiv a d"
proof -
  have a: "0 < a"
    using assms by linarith
  have "(of_int d :: rat) \<le> of_int a"
    using assms(2) by (simp only: of_int_le_iff)
  then have "(1 :: rat) \<le> of_int a / of_int d"
    using assms(1) by (simp add: pos_le_divide_eq)
  also have "\<dots> < pow2 (binade a d + 1)"
    by (rule binade_bounds(2) [OF a assms(1)])
  finally have "pow2 0 < pow2 (binade a d + 1)"
    by simp
  then have "0 \<le> binade a d"
    using pow2_less_imp by fastforce
  then have "pow2 0 \<le> pow2 (binade a d)"
    by (rule pow2_mono)
  also have "\<dots> \<le> fl_pos a d"
    by (rule fl_pos_props(2) [OF a assms(1)])
  finally show ?thesis
    using a by (simp add: fdiv_simps)
qed

lemma fdiv_lt_1:
  assumes "0 < a" "a < d" "d < 2 ^ 53"
  shows "fdiv a d < 1"
proof -
  let ?q = "of_int a / of_int d :: rat"
  have d: "0 < d"
    using assms by linarith
  have dpos: "(0 :: rat) < of_int d"
    using d by simp
  have "fdiv a d \<le> ?q + ?q / 2 ^ 53"
    using fdiv_error [OF assms(1) d] by (simp add: abs_le_iff)
  also have "\<dots> = ?q * ((2 ^ 53 + 1) / 2 ^ 53)"
    by (simp add: field_simps)
  also have "\<dots> < 1"
  proof -
    have "a * (2 ^ 53 + 1) < d * 2 ^ 53"
      using assms by simp
    then have "(of_int (a * (2 ^ 53 + 1)) :: rat) < of_int (d * 2 ^ 53)"
      by (simp only: of_int_less_iff)
    then have "(of_int a :: rat) * (2 ^ 53 + 1) < of_int d * 2 ^ 53"
      by simp
    then show ?thesis
      using dpos by (simp add: field_simps)
  qed
  finally show ?thesis .
qed

lemma nearest_tenmillionth:
  fixes y :: rat
  assumes "\<bar>y - of_int a / 10000000\<bar> < 1 / 10000000"
  shows "\<bar>of_int \<lfloor>y + 1 / 2\<rfloor> - (of_int a / 10000000 :: rat)\<bar> \<le> 1 / 2"
proof -
  let ?n = "\<lfloor>y + 1 / 2\<rfloor>"
  have fl: "of_int ?n \<le> y + 1 / 2" "y + 1 / 2 < of_int ?n + 1"
    by linarith+
  from assms have y: "y - of_int a / 10000000 < 1 / 10000000"
    "- (1 / 10000000) < y - of_int a / 10000000"
    by linarith+
  have "(of_int ?n :: rat) - of_int a / 10000000 < 1 / 2 + 1 / 10000000"
    using fl(1) y(1) by linarith
  then have "(of_int (20000000 * ?n - 2 * a) :: rat) < of_int 10000002"
    by (simp add: field_simps)
  then have up: "20000000 * ?n - 2 * a < 10000002"
    by (simp only: of_int_less_iff)
  have "- (1 / 2) - 1 / 10000000 < (of_int ?n :: rat) - of_int a / 10000000"
    using fl(2) y(2) by linarith
  then have "(of_int (- 10000002) :: rat) < of_int (20000000 * ?n - 2 * a)"
    by (simp add: field_simps)
  then have lo: "- 10000002 < 20000000 * ?n - 2 * a"
    by (simp only: of_int_less_iff)
  define k where "k = 10000000 * ?n - a"
  have z: "20000000 * ?n - 2 * a = 2 * k"
    by (simp add: k_def)
  from up have "2 * k < 2 * 5000001"
    by (simp add: z)
  then have "k < 5000001"
    by (simp only: mult_less_cancel_left_pos zero_less_numeral)
  moreover from lo have "2 * (- 5000001) < 2 * k"
    by (simp add: z)
  then have "- 5000001 < k"
    by (simp only: mult_less_cancel_left_pos zero_less_numeral)
  ultimately have "2 * k \<le> 10000000" "- 10000000 \<le> 2 * k"
    by linarith+
  then have "20000000 * ?n - 2 * a \<le> 10000000" "- 10000000 \<le> 20000000 * ?n - 2 * a"
    by (simp_all only: z)
  then have "(of_int (20000000 * ?n - 2 * a) :: rat) \<le> of_int 10000000"
    "(of_int (- 10000000) :: rat) \<le> of_int (20000000 * ?n - 2 * a)"
    by (simp_all only: of_int_le_iff)
  then show ?thesis
    by (simp add: abs_le_iff field_simps)
qed

lemma fdiv_close:
  assumes "0 < b" "b < 2 ^ 53" "0 < d"
  shows "\<bar>fdiv b d - of_int b / of_int d\<bar> < 1 / of_int d"
proof -
  have dpos: "(0 :: rat) < of_int d"
    using assms(3) by simp
  have "(of_int b :: rat) < of_int (2 ^ 53)"
    using assms(2) by (simp only: of_int_less_iff)
  then have "(of_int b :: rat) / of_int d / 2 ^ 53 < 1 / of_int d"
    using dpos by (simp add: field_simps)
  with fdiv_error [OF assms(1,3)] show ?thesis
    by linarith
qed

lemma fdiv_small:
  assumes "0 < b" "b < 2 ^ 53" "1 \<le> d"
  shows "fdiv b d < 10 ^ 21"
proof -
  have d: "0 < d" "(1 :: rat) \<le> of_int d"
    using assms(3) by simp_all
  have "(of_int b :: rat) < of_int (2 ^ 53)"
    using assms(2) by (simp only: of_int_less_iff)
  then have "(of_int b :: rat) / of_int d < 2 ^ 53"
    using d by (simp add: pos_divide_less_eq)
  moreover have "1 / (of_int d :: rat) \<le> 1"
    using d by simp
  ultimately have "fdiv b d < 2 ^ 53 + 1"
    using fdiv_close [OF assms(1,2) d(1)] by linarith
  then show ?thesis
    by simp
qed

lemma decimal_step: "10 \<le> n \<Longrightarrow> decimal n = decimal (n div 10) @ [digitChar (n mod 10)]"
  by (subst decimal.simps) simp

lemma decimal_digit: "n < 10 \<Longrightarrow> decimal n = [digitChar n]"
  by (subst decimal.simps) simp

lemma toFixed_neg: "x < 0 \<Longrightarrow> toFixed nts x f = js ''-'' @ toFixed nts (- x) f"
  by (simp add: toFixed_def Let_def)

lemma toFixed_0:
  "0 \<le> x \<Longrightarrow> x < 10 ^ 21 \<Longrightarrow> toFixed nts x 0 = decimal (nat \<lfloor>x + 1 / 2\<rfloor>)"
  by (simp add: toFixed_def Let_def)

lemma toFixed_1:
  assumes "0 \<le> x" "x < 10 ^ 21" "10 \<le> nat \<lfloor>x * 10 + 1 / 2\<rfloor>"
  shows "toFixed nts x 1 =
     decimal (nat \<lfloor>x * 10 + 1 / 2\<rfloor> div 10) @ js ''.'' @ decimal (nat \<lfloor>x * 10 + 1 / 2\<rfloor> mod 10)"
proof -
  let ?n = "nat \<lfloor>x * 10 + 1 / 2\<rfloor>"
  have m: "decimal ?n = decimal (?n div 10) @ [digitChar (?n mod 10)]"
    using assms(3) by (rule decimal_step)
  have l: "\<not> length (decimal ?n) \<le> 1"
    using decimal_not_Nil [of "?n div 10"] by (simp add: m)
  have last: "decimal (?n mod 10) = [digitChar (?n mod 10)]"
    by (rule decimal_digit) simp
  have "toFixed nts x 1 =
      take (length (decimal ?n) - 1) (decimal ?n) @ js ''.'' @ drop (length (decimal ?n) - 1) (decimal ?n)"
    using assms(1,2) l by (simp add: toFixed_def Let_def)
  also have "\<dots> = decimal (?n div 10) @ js ''.'' @ decimal (?n mod 10)"
    by (simp add: m last)
  finally show ?thesis .
qed

lemma million_rounds:
  assumes "0 < b" "b < 2 ^ 53"
  shows "\<exists>n. toFixed nts (fdiv b 10000000) 0 = decimal n \<and>
             \<bar>of_nat n - (of_int b / 10000000 :: rat)\<bar> \<le> 1 / 2"
proof -
  let ?x = "fdiv b 10000000"
  have x: "0 < ?x" "?x < 10 ^ 21"
  proof -
    show "0 < ?x"
      by (rule fdiv_pos [OF assms(1)]) simp
    show "?x < 10 ^ 21"
      by (rule fdiv_small [OF assms]) simp
  qed
  have close: "\<bar>?x - of_int b / 10000000\<bar> < 1 / 10000000"
    using fdiv_close [OF assms, of 10000000] by simp
  have "0 \<le> \<lfloor>?x + 1 / 2\<rfloor>"
    using x(1) by simp
  then have n: "(of_nat (nat \<lfloor>?x + 1 / 2\<rfloor>) :: rat) = of_int \<lfloor>?x + 1 / 2\<rfloor>"
    by simp
  have "toFixed nts ?x 0 = decimal (nat \<lfloor>?x + 1 / 2\<rfloor>)"
    using x by (simp add: toFixed_0)
  moreover have "\<bar>of_nat (nat \<lfloor>?x + 1 / 2\<rfloor>) - (of_int b / 10000000 :: rat)\<bar> \<le> 1 / 2"
    unfolding n using close by (rule nearest_tenmillionth)
  ultimately show ?thesis
    by blast
qed

lemma billion_rounds:
  assumes "100000000 \<le> b" "b < 2 ^ 53"
  shows "\<exists>n. toFixed nts (fdiv b 100000000) 1 =
               decimal (n div 10) @ js ''.'' @ decimal (n mod 10) \<and>
             \<bar>of_nat n / 10 - (of_int b / 100000000 :: rat)\<bar> \<le> 1 / 20"
proof -
  let ?x = "fdiv b 100000000"
  have b: "0 < b"
    using assms(1) by linarith
  have x: "1 \<le> ?x" "?x < 10 ^ 21"
  proof -
    show "1 \<le> ?x"
      using assms(1) by (intro fdiv_ge_1) simp_all
    show "?x < 10 ^ 21"
      by (rule fdiv_small [OF b assms(2)]) simp
  qed
  have "\<bar>?x - of_int b / 100000000\<bar> < 1 / 100000000"
    using fdiv_close [OF b assms(2), of 100000000] by simp
  then have close: "\<bar>?x * 10 - of_int b / 10000000\<bar> < 1 / 10000000"
    by linarith
  let ?n = "\<lfloor>?x * 10 + 1 / 2\<rfloor>"
  have "(10 :: rat) \<le> ?x * 10 + 1 / 2"
    using x(1) by linarith
  then have "(of_int 10 :: rat) \<le> ?x * 10 + 1 / 2"
    by simp
  then have ge: "10 \<le> ?n"
    by (simp only: le_floor_iff)
  have n: "(of_nat (nat ?n) :: rat) = of_int ?n" "10 \<le> nat ?n"
  proof -
    from ge have "0 \<le> ?n"
      by linarith
    then show "(of_nat (nat ?n) :: rat) = of_int ?n"
      by (rule of_nat_nat)
    from ge show "10 \<le> nat ?n"
      by linarith
  qed
  have "0 \<le> ?x"
    using x(1) by linarith
  then have "toFixed nts ?x 1 = decimal (nat ?n div 10) @ js ''.'' @ decimal (nat ?n mod 10)"
    using x(2) n(2) by (rule toFixed_1)
  moreover have "\<bar>of_int ?n - (of_int b / 10000000 :: rat)\<bar> \<le> 1 / 2"
    using close by (rule nearest_tenmillionth)
  then have "\<bar>of_nat (nat ?n) / 10 - (of_int b / 100000000 :: rat)\<bar> \<le> 1 / 20"
    unfolding n by linarith
  ultimately show ?thesis
    by blast
qed

lemma fdiv_samples:
  "fdiv 150000000 100000000 = 3 / 2"
  "fdiv 50000000 100000000 = 1 / 2"
  "fdiv 50000000 10000000 = 5"
  by code_simp+

lemma floor_samples:
  "nat \<lfloor>(3 / 2 :: rat) * 10 + 1 / 2\<rfloor> = 15"
  "nat \<lfloor>(5 :: rat) + 1 / 2\<rfloor> = 5"
  "nat \<lfloor>(0 :: rat) + 1 / 2\<rfloor> = 0"
  by code_simp+

lemma decimal_samples:
  "decimal (15 div 10) = js ''1''" "decimal (15 mod 10) = js ''5''" "decimal 5 = js ''5''"
  by code_simp+

lemma formatAmount_samples:
  "formatAmount w 150000000 = js ''1.5'' @ EOKWON"
  "formatAmount w 50000000 = js ''5'' @ BAEKMANWON"
proof -
  have "toFixed (numberToString w) (3 / 2) 1 = js ''1'' @ js ''.'' @ js ''5''"
    using toFixed_1 [of "3 / 2" "numberToString w"]
    by (simp only: floor_samples decimal_samples) simp
  then show "formatAmount w 150000000 = js ''1.5'' @ EOKWON"
    by (simp add: formatAmount_def fdiv_samples js_def)
  have "toFixed (numberToString w) 5 0 = js ''5''"
    using toFixed_0 [of 5 "numberToString w"]
    by (simp only: floor_samples decimal_samples) simp
  then show "formatAmount w 50000000 = js ''5'' @ BAEKMANWON"
    by (simp add: formatAmount_def fdiv_samples)
qed

lemma billion_test:
  assumes "\<bar>a\<bar> < 2 ^ 53"
  shows "(1 \<le> fdiv a 100000000) = (100000000 \<le> a)"
proof (cases "100000000 \<le> a")
  case True
  then have "1 \<le> fdiv a 100000000"
    by (intro fdiv_ge_1) simp_all
  with True show ?thesis
    by simp
next
  case False
  have "fdiv a 100000000 < 1"
  proof (cases "0 < a")
    case True
    with False show ?thesis
      by (intro fdiv_lt_1) simp_all
  next
    case neg: False
    show ?thesis
    proof (cases "a = 0")
      case True
      then show ?thesis
        by (simp add: fdiv_simps)
    next
      case False
      with neg have a: "a < 0" "0 < - a"
        by linarith+
      have "0 < fdiv (- a) 100000000"
        by (rule fdiv_pos [OF a(2)]) simp
      then show ?thesis
        by (simp add: fdiv_simps(2) [OF a(1)])
    qed
  qed
  with False show ?thesis
    by simp
qed

text \<open>
  \<^bold>\<open>C1.\<close> For an integer amount \<open>a\<close> in the range where a JavaScript number is
  an exact integer (\<open>\<bar>a\<bar> < 2 ^ 53\<close>): when \<open>a / 100000000\<close> is at least 1 (that is,
  \<open>100000000 \<le> a\<close>) the formatter returns the digits of a number \<open>n / 10\<close> with one
  decimal that is nearest to \<open>a / 100000000\<close>, followed by the hundred-million label;
  otherwise it returns the sign and the digits of an integer \<open>n\<close> nearest to
  \<open>\<bar>a\<bar> / 10000000\<close>, followed by the million label. In particular 150000000 gives
  \<open>1.5\<close> and 50000000 gives \<open>5\<close>, each with its label.
\<close>

theorem formatAmount_rounds:
  assumes "\<bar>a\<bar> < 2 ^ 53"
  shows
   "(if 100000000 \<le> a
     then \<exists>n. formatAmount w a = decimal (n div 10) @ js ''.'' @ decimal (n mod 10) @ EOKWON \<and>
              \<bar>of_nat n / 10 - (of_int a / 100000000 :: rat)\<bar> \<le> 1 / 20
     else \<exists>n. formatAmount w a = (if a < 0 then js ''-'' else []) @ decimal n @ BAEKMANWON \<and>
              \<bar>of_nat n - (\<bar>of_int a\<bar> / 10000000 :: rat)\<bar> \<le> 1 / 2) \<and>
    formatAmount w 150000000 = js ''1.5'' @ EOKWON \<and>
    formatAmount w 50000000 = js ''5'' @ BAEKMANWON"
proof -
  note test = billion_test [OF assms]
  have main: "if 100000000 \<le> a
     then \<exists>n. formatAmount w a = decimal (n div 10) @ js ''.'' @ decimal (n mod 10) @ EOKWON \<and>
              \<bar>of_nat n / 10 - (of_int a / 100000000 :: rat)\<bar> \<le> 1 / 20
     else \<exists>n. formatAmount w a = (if a < 0 then js ''-'' else []) @ decimal n @ BAEKMANWON \<and>
              \<bar>of_nat n - (\<bar>of_int a\<bar> / 10000000 :: rat)\<bar> \<le> 1 / 2"
  proof (cases "100000000 \<le> a")
    case True
    with assms have "a < 2 ^ 53"
      by linarith
    from billion_rounds [OF True this, of "numberToString w"] True test show ?thesis
      by (auto simp add: formatAmount_def Let_def)
  next
    case False
    have fa: "formatAmount w a = toFixed (numberToString w) (fdiv a 10000000) 0 @ BAEKMANWON"
      using False test by (simp add: formatAmount_def Let_def)
    consider "a = 0" | "0 < a" | "a < 0"
      by linarith
    then have "\<exists>n. formatAmount w a = (if a < 0 then js ''-'' else []) @ decimal n @ BAEKMANWON \<and>
              \<bar>of_nat n - (\<bar>of_int a\<bar> / 10000000 :: rat)\<bar> \<le> 1 / 2"
    proof cases
      case 1
      have "toFixed (numberToString w) 0 0 = decimal 0"
        using toFixed_0 [of 0 "numberToString w"] by (simp add: floor_samples)
      with 1 fa show ?thesis
        by (intro exI [of _ 0]) (simp add: fdiv_simps)
    next
      case 2
      with assms have "a < 2 ^ 53"
        by linarith
      from million_rounds [OF 2 this, of "numberToString w"] 2 show ?thesis
        by (auto simp add: fa)
    next
      case 3
      with assms have b: "0 < - a" "- a < 2 ^ 53"
        by linarith+
      have "0 < fdiv (- a) 10000000"
        by (rule fdiv_pos [OF b(1)]) simp
      then have neg: "fdiv a 10000000 < 0"
        by (simp add: fdiv_simps(2) [OF 3])
      have "formatAmount w a =
          js ''-'' @ toFixed (numberToString w) (fdiv (- a) 10000000) 0 @ BAEKMANWON"
        using toFixed_neg [OF neg, of "numberToString w" 0] by (simp add: fa fdiv_simps(2) [OF 3])
      moreover have "\<bar>of_int a :: rat\<bar> = of_int (- a)"
        using 3 by simp
      ultimately show ?thesis
        using million_rounds [OF b, of "numberToString w"] 3 by auto
    qed
    with False show ?thesis
      by simp
  qed
  show ?thesis
    using main formatAmount_samples [of w] by simp
qed

lemma formatAmount_tie: "formatAmount online 115000000 = js ''1.1'' @ EOKWON"
  by code_simp

text \<open>
  At 115000000 the quotient is the number nearest to 1.15, which lies below it: the
  result reads \<open>1.1\<close>.
\<close>

theorem formatAmount_rounds_sample:
  "\<bar>115000000 :: int\<bar> < 2 ^ 53 \<and>
   (\<exists>n. formatAmount online 115000000 =
          decimal (n div 10) @ js ''.'' @ decimal (n mod 10) @ EOKWON \<and>
        \<bar>of_nat n / 10 - (115000000 / 100000000 :: rat)\<bar> \<le> 1 / 20) \<and>
   formatAmount online 115000000 = js ''1.1'' @ EOKWON \<and>
   formatAmount online 150000000 = js ''1.5'' @ EOKWON \<and>
   formatAmount online 50000000 = js ''5'' @ BAEKMANWON"
proof -
  have "\<bar>115000000 :: int\<bar> < 2 ^ 53"
    by simp
  from formatAmount_rounds [OF this, of online] show ?thesis
    by (simp add: formatAmount_tie)
qed

end
